theory Spec2Isabelle
  imports Complex_Main
begin

section \<open>Data model of the two training scripts\<close>

text \<open>
  The repository holds two scripts, \<^verbatim>\<open>DCGAN.py\<close> and \<^verbatim>\<open>nlzl16_generative_model.py\<close>.
  Both train a generator \<^verbatim>\<open>netG\<close> against a discriminator \<^verbatim>\<open>netD\<close> with the same
  loop body and differ in the loop header, in what is logged, and in the code that
  runs after training.

  Tensors are modelled over the reals.  A batch is the list of its samples
  (\<^verbatim>\<open>data.size(0)\<close> is its length), a sample or a parameter vector is a list of reals.
\<close>

type_synonym vec = "real list"
type_synonym batch = "real list list"

text \<open>
  The hyperparameter dictionary \<^verbatim>\<open>params\<close>.  Python integers are unbounded and may be
  negative, so the two budgets are of type \<open>int\<close>.
\<close>

record hparams =
  batch_size :: nat
  nc :: nat
  nz :: nat
  ngf :: nat
  ndf :: nat
  dim :: nat
  n_epochs :: int
  step :: int
  real_label :: real
  fake_label :: real

text \<open>
  The configured values.  \<^verbatim>\<open>DCGAN.py\<close> has no entry \<^verbatim>\<open>step\<close> and
  \<^verbatim>\<open>nlzl16_generative_model.py\<close> no entry \<^verbatim>\<open>n_epochs\<close>; neither script reads the
  other's budget, and the field is set to 0 here.
\<close>

definition dcgan_params :: hparams where
  "dcgan_params = \<lparr>batch_size = 128, nc = 3, nz = 100, ngf = 64, ndf = 64, dim = 32,
     n_epochs = 50, step = 0, real_label = 9 / 10, fake_label = 0\<rparr>"

definition nlzl_params :: hparams where
  "nlzl_params = \<lparr>batch_size = 64, nc = 3, nz = 128, ngf = 64, ndf = 64, dim = 32,
     n_epochs = 0, step = 50000, real_label = 9 / 10, fake_label = 0\<rparr>"

text \<open>
  What the scripts take from PyTorch is a parameter of the model: the two networks
  (value of the forward pass in training mode, the running statistics the pass leaves
  behind, and the vector-Jacobian products that \<^verbatim>\<open>backward\<close> evaluates), the loss
  \<^verbatim>\<open>nn.BCELoss\<close>, the update rule of \<^verbatim>\<open>Adam\<close>, the generator of normal noise, the
  shuffling \<^verbatim>\<open>DataLoader\<close> and \<^verbatim>\<open>make_grid\<close>.  The random generator is a state of
  type \<open>nat\<close> that every draw advances.
\<close>

record env =
  G_net :: "vec \<Rightarrow> vec \<Rightarrow> batch \<Rightarrow> batch"
  G_bufs :: "vec \<Rightarrow> vec \<Rightarrow> batch \<Rightarrow> vec"
  G_vjp :: "vec \<Rightarrow> vec \<Rightarrow> batch \<Rightarrow> batch \<Rightarrow> vec"
  D_net :: "vec \<Rightarrow> vec \<Rightarrow> batch \<Rightarrow> vec"
  D_bufs :: "vec \<Rightarrow> vec \<Rightarrow> batch \<Rightarrow> vec"
  D_vjp_par :: "vec \<Rightarrow> vec \<Rightarrow> batch \<Rightarrow> vec \<Rightarrow> vec"
  D_vjp_in :: "vec \<Rightarrow> vec \<Rightarrow> batch \<Rightarrow> vec \<Rightarrow> batch"
  bce :: "vec \<Rightarrow> vec \<Rightarrow> real"
  bce_vjp :: "vec \<Rightarrow> vec \<Rightarrow> real \<Rightarrow> vec"
  adam :: "vec \<Rightarrow> vec \<Rightarrow> vec \<Rightarrow> vec \<times> vec"
  randn :: "nat \<Rightarrow> nat \<Rightarrow> nat \<Rightarrow> batch \<times> nat"
  loader_len :: nat
  loader_iter :: "nat \<Rightarrow> batch list \<times> nat"
  make_grid :: "batch \<Rightarrow> vec"

text \<open>
  The mutable state of \<^verbatim>\<open>__main__\<close> during training: parameters, running statistics
  and \<^verbatim>\<open>.grad\<close> of each network (\<open>None\<close> is PyTorch's unset gradient), the state of
  each optimizer, the random generator, the batches the generator \<^verbatim>\<open>cycle\<close> still
  holds of the current pass, and the progress lists.
\<close>

record train_state =
  netG :: vec
  netG_buf :: vec
  netG_grad :: "vec option"
  netD :: vec
  netD_buf :: vec
  netD_grad :: "vec option"
  optimizerG :: vec
  optimizerD :: vec
  rng :: nat
  train_iterator :: "batch list"
  img_list :: "vec list"
  G_losses :: "real list"
  D_losses :: "real list"
  iters :: nat

section \<open>Automatic differentiation\<close>

text \<open>
  A tensor that takes part in a computation carries its value and what \<^verbatim>\<open>backward\<close>
  does when it reaches the tensor with a cotangent: the pair of contributions to the
  gradient of the generator's and of the discriminator's parameters.  \<open>None\<close> means the
  network's parameters are not in the tensor's graph, so \<^verbatim>\<open>backward\<close> leaves their
  \<^verbatim>\<open>.grad\<close> alone.
\<close>

record 'v ag =
  val :: 'v
  pull :: "'v \<Rightarrow> vec option \<times> vec option"

definition accumulate :: "vec option \<Rightarrow> vec option \<Rightarrow> vec option" where
  "accumulate g c =
     (case c of
        None \<Rightarrow> g
      | Some d \<Rightarrow> (case g of None \<Rightarrow> Some d | Some e \<Rightarrow> Some (map2 (+) e d)))"

text \<open>A tensor that does not require a gradient (the real batch), and \<^verbatim>\<open>detach()\<close>.\<close>

definition leaf :: "'v \<Rightarrow> 'v ag" where
  "leaf x = \<lparr>val = x, pull = (\<lambda>c. (None, None))\<rparr>"

definition detach :: "'v ag \<Rightarrow> 'v ag" where
  "detach x = \<lparr>val = val x, pull = (\<lambda>c. (None, None))\<rparr>"

text \<open>
  \<^verbatim>\<open>netG(noise)\<close> and \<^verbatim>\<open>netD(x).view(-1)\<close> in training mode: the value, the graph, and
  the update of the running statistics.
\<close>

definition netG_call :: "env \<Rightarrow> batch \<Rightarrow> train_state \<Rightarrow> batch ag \<times> train_state" where
  "netG_call e z s =
     (\<lparr>val = G_net e (netG s) (netG_buf s) z,
       pull = (\<lambda>c. (Some (G_vjp e (netG s) (netG_buf s) z c), None))\<rparr>,
      s\<lparr>netG_buf := G_bufs e (netG s) (netG_buf s) z\<rparr>)"

definition netD_call :: "env \<Rightarrow> batch ag \<Rightarrow> train_state \<Rightarrow> vec ag \<times> train_state" where
  "netD_call e x s =
     (\<lparr>val = D_net e (netD s) (netD_buf s) (val x),
       pull = (\<lambda>c.
         (case pull x (D_vjp_in e (netD s) (netD_buf s) (val x) c) of
            (g, d) \<Rightarrow> (g, accumulate d (Some (D_vjp_par e (netD s) (netD_buf s) (val x) c)))))\<rparr>,
      s\<lparr>netD_buf := D_bufs e (netD s) (netD_buf s) (val x)\<rparr>)"

definition criterion :: "env \<Rightarrow> vec ag \<Rightarrow> vec \<Rightarrow> real ag" where
  "criterion e output label =
     \<lparr>val = bce e (val output) label,
      pull = (\<lambda>c. pull output (bce_vjp e (val output) label c))\<rparr>"

definition backward :: "real ag \<Rightarrow> train_state \<Rightarrow> train_state" where
  "backward loss s =
     (case pull loss 1 of
        (g, d) \<Rightarrow> s\<lparr>netG_grad := accumulate (netG_grad s) g,
                     netD_grad := accumulate (netD_grad s) d\<rparr>)"

text \<open>
  \<^verbatim>\<open>optimizer.step()\<close>: an optimizer holds the parameters of one network only
  (\<^verbatim>\<open>Adam(netD.parameters(), ...)\<close>) and skips parameters whose gradient is unset.
\<close>

definition optimizerD_step :: "env \<Rightarrow> train_state \<Rightarrow> train_state" where
  "optimizerD_step e s =
     (case netD_grad s of
        None \<Rightarrow> s
      | Some g \<Rightarrow> (case adam e (optimizerD s) (netD s) g of
                    (p, opt) \<Rightarrow> s\<lparr>netD := p, optimizerD := opt\<rparr>))"

definition optimizerG_step :: "env \<Rightarrow> train_state \<Rightarrow> train_state" where
  "optimizerG_step e s =
     (case netG_grad s of
        None \<Rightarrow> s
      | Some g \<Rightarrow> (case adam e (optimizerG s) (netG s) g of
                    (p, opt) \<Rightarrow> s\<lparr>netG := p, optimizerG := opt\<rparr>))"

section \<open>The loop body\<close>

text \<open>
  ``Train with real images'' (\<^verbatim>\<open>DCGAN.py\<close> lines 203 to 213, the same statements in
  \<^verbatim>\<open>nlzl16_generative_model.py\<close> lines 213 to 224).
\<close>

definition D_real_pass :: "env \<Rightarrow> hparams \<Rightarrow> batch \<Rightarrow> train_state \<Rightarrow> real ag \<times> train_state" where
  "D_real_pass e hp data s0 =
     (let s1 = s0\<lparr>netD_grad := None\<rparr>;
          b_size = length data;
          label = replicate b_size (real_label hp);
          (output, s2) = netD_call e (leaf data) s1;
          errD_real = criterion e output label
      in (errD_real, backward errD_real s2))"

text \<open>``Train with fake images'' up to the backward pass (lines 217 to 226, and 228 to 239).\<close>

definition D_fake_pass ::
  "env \<Rightarrow> hparams \<Rightarrow> nat \<Rightarrow> train_state \<Rightarrow> batch ag \<times> real ag \<times> train_state" where
  "D_fake_pass e hp b_size s0 =
     (let (noise, r) = randn e (rng s0) b_size (nz hp);
          (fake, s1) = netG_call e noise (s0\<lparr>rng := r\<rparr>);
          label = replicate b_size (fake_label hp);
          (output, s2) = netD_call e (detach fake) s1;
          errD_fake = criterion e output label
      in (fake, errD_fake, backward errD_fake s2))"

text \<open>
  The discriminator's update.  The two scripts add the two losses in opposite order
  (\<^verbatim>\<open>errD_real + errD_fake\<close> and \<^verbatim>\<open>errD_fake + errD_real\<close>).
\<close>

definition dcgan_phase_D ::
  "env \<Rightarrow> hparams \<Rightarrow> batch \<Rightarrow> train_state \<Rightarrow> batch ag \<times> real \<times> train_state" where
  "dcgan_phase_D e hp data s0 =
     (let (errD_real, s1) = D_real_pass e hp data s0;
          (fake, errD_fake, s2) = D_fake_pass e hp (length data) s1;
          errD = val errD_real + val errD_fake
      in (fake, errD, optimizerD_step e s2))"

definition nlzl_phase_D ::
  "env \<Rightarrow> hparams \<Rightarrow> batch \<Rightarrow> train_state \<Rightarrow> batch ag \<times> real \<times> train_state" where
  "nlzl_phase_D e hp data s0 =
     (let (errD_real, s1) = D_real_pass e hp data s0;
          (fake, errD_fake, s2) = D_fake_pass e hp (length data) s1;
          errD = val errD_fake + val errD_real
      in (fake, errD, optimizerD_step e s2))"

text \<open>The generator's update (lines 236 to 245, and 254 to 264).\<close>

definition phase_G :: "env \<Rightarrow> hparams \<Rightarrow> nat \<Rightarrow> batch ag \<Rightarrow> train_state \<Rightarrow> real \<times> train_state" where
  "phase_G e hp b_size fake s0 =
     (let s1 = s0\<lparr>netG_grad := None\<rparr>;
          label = replicate b_size (real_label hp);
          (output, s2) = netD_call e fake s1;
          errG = criterion e output label;
          s3 = backward errG s2
      in (val errG, optimizerG_step e s3))"

section \<open>The training loops\<close>

text \<open>
  \<^verbatim>\<open>next(train_iterator)\<close> on \<^verbatim>\<open>cycle(train_loader)\<close>: the generator hands out the rest
  of the current pass and starts a new pass over the loader when it is used up.  Over
  a loader with no batch, \<^verbatim>\<open>while True\<close> never yields: the value \<open>None\<close>.
\<close>

partial_function (option) cycle_next ::
  "env \<Rightarrow> batch list \<Rightarrow> nat \<Rightarrow> (batch \<times> batch list \<times> nat) option" where
  "cycle_next e rest r =
     (case rest of
        x # xs \<Rightarrow> Some (x, xs, r)
      | [] \<Rightarrow> (case loader_iter e r of (pass, r') \<Rightarrow> cycle_next e pass r'))"

text \<open>
  The snapshot of \<^verbatim>\<open>DCGAN.py\<close> (lines 258 to 260).  The network is still in training
  mode, so the forward pass under \<^verbatim>\<open>no_grad\<close> moves the running statistics.
\<close>

definition dcgan_snapshot :: "env \<Rightarrow> batch \<Rightarrow> train_state \<Rightarrow> train_state" where
  "dcgan_snapshot e fixed_noise s =
     (let (fake, s1) = netG_call e fixed_noise s
      in s1\<lparr>img_list := img_list s1 @ [make_grid e (val fake)]\<rparr>)"

text \<open>The body of the inner loop of \<^verbatim>\<open>DCGAN.py\<close> (lines 197 to 262).\<close>

definition dcgan_step ::
  "env \<Rightarrow> hparams \<Rightarrow> batch \<Rightarrow> nat \<Rightarrow> nat \<Rightarrow> train_state \<Rightarrow> train_state option" where
  "dcgan_step e hp fixed_noise epoch i s0 =
     (case cycle_next e (train_iterator s0) (rng s0) of
        None \<Rightarrow> None
      | Some (data, rest, r) \<Rightarrow>
          (let s1 = s0\<lparr>rng := r, train_iterator := rest\<rparr>;
               (fake, errD, s2) = dcgan_phase_D e hp data s1;
               (errG, s3) = phase_G e hp (length data) fake s2;
               s4 = s3\<lparr>G_losses := G_losses s3 @ [errG], D_losses := D_losses s3 @ [errD]\<rparr>;
               s5 = (if int epoch + 1 = n_epochs hp \<and> int i = int (loader_len e) - 1
                     then dcgan_snapshot e fixed_noise s4 else s4)
           in Some (s5\<lparr>iters := iters s5 + 1\<rparr>)))"

text \<open>\<^verbatim>\<open>for i in range(1000)\<close> and \<^verbatim>\<open>for epoch in range(params['n_epochs'])\<close>.\<close>

fun dcgan_inner ::
  "env \<Rightarrow> hparams \<Rightarrow> batch \<Rightarrow> nat \<Rightarrow> nat list \<Rightarrow> train_state \<Rightarrow> train_state option" where
  "dcgan_inner e hp fixed_noise epoch [] s = Some s"
| "dcgan_inner e hp fixed_noise epoch (i # is) s =
     (case dcgan_step e hp fixed_noise epoch i s of
        None \<Rightarrow> None
      | Some s' \<Rightarrow> dcgan_inner e hp fixed_noise epoch is s')"

fun dcgan_outer ::
  "env \<Rightarrow> hparams \<Rightarrow> batch \<Rightarrow> nat list \<Rightarrow> train_state \<Rightarrow> train_state option" where
  "dcgan_outer e hp fixed_noise [] s = Some s"
| "dcgan_outer e hp fixed_noise (epoch # epochs) s =
     (case dcgan_inner e hp fixed_noise epoch [0..<1000] s of
        None \<Rightarrow> None
      | Some s' \<Rightarrow> dcgan_outer e hp fixed_noise epochs s')"

definition dcgan_train :: "env \<Rightarrow> hparams \<Rightarrow> batch \<Rightarrow> train_state \<Rightarrow> train_state option" where
  "dcgan_train e hp fixed_noise s = dcgan_outer e hp fixed_noise [0..<nat (n_epochs hp)] s"

text \<open>
  The body of the loop of \<^verbatim>\<open>nlzl16_generative_model.py\<close> (lines 213 to 282).  Every
  5000 steps it runs the generator on the fixed noise for a picture; the network is in
  training mode, so the running statistics move.
\<close>

definition nlzl_step :: "env \<Rightarrow> hparams \<Rightarrow> batch \<Rightarrow> batch \<Rightarrow> train_state \<Rightarrow> train_state" where
  "nlzl_step e hp fixed_noise data s0 =
     (let (fake, errD, s1) = nlzl_phase_D e hp data s0;
          (errG, s2) = phase_G e hp (length data) fake s1;
          s3 = (if iters s2 mod 5000 = 0 then snd (netG_call e fixed_noise s2) else s2);
          s4 = s3\<lparr>G_losses := G_losses s3 @ [errG], D_losses := D_losses s3 @ [errD]\<rparr>
      in s4\<lparr>iters := iters s4 + 1\<rparr>)"

text \<open>\<^verbatim>\<open>for i, data in enumerate(train_loader, 0)\<close> with its \<^verbatim>\<open>break\<close>.\<close>

fun nlzl_for :: "env \<Rightarrow> hparams \<Rightarrow> batch \<Rightarrow> batch list \<Rightarrow> train_state \<Rightarrow> train_state" where
  "nlzl_for e hp fixed_noise [] s = s"
| "nlzl_for e hp fixed_noise (data # rest) s =
     (if step hp \<le> int (iters s) then s
      else nlzl_for e hp fixed_noise rest (nlzl_step e hp fixed_noise data s))"

text \<open>
  \<^verbatim>\<open>while iters < params['step']\<close>: each round starts a new pass over the loader.  The
  loop may run forever (a loader with no batch), hence the result is optional.
\<close>

partial_function (option) nlzl_train ::
  "env \<Rightarrow> hparams \<Rightarrow> batch \<Rightarrow> train_state \<Rightarrow> train_state option" where
  "nlzl_train e hp fixed_noise s =
     (if int (iters s) < step hp
      then (case loader_iter e (rng s) of
              (pass, r) \<Rightarrow> nlzl_train e hp fixed_noise (nlzl_for e hp fixed_noise pass (s\<lparr>rng := r\<rparr>)))
      else Some s)"

text \<open>
  \<^verbatim>\<open>len(train_loader)\<close> of a \<^verbatim>\<open>DataLoader\<close> that keeps the last, shorter batch, and
  the loader a well-formed environment describes: every pass has that many batches.
\<close>

definition DataLoader_len :: "nat \<Rightarrow> nat \<Rightarrow> nat" where
  "DataLoader_len dataset_size bs = (dataset_size + bs - 1) div bs"

definition loader_ok :: "env \<Rightarrow> bool" where
  "loader_ok e \<longleftrightarrow> (\<forall>r. length (fst (loader_iter e r)) = loader_len e)"

text \<open>The progress lists and the counter as \<^verbatim>\<open>__main__\<close> sets them up before the loop.\<close>

definition init_state :: "vec \<Rightarrow> vec \<Rightarrow> vec \<Rightarrow> vec \<Rightarrow> vec \<Rightarrow> vec \<Rightarrow> nat \<Rightarrow> train_state" where
  "init_state pG bG pD bD oG oD r =
     \<lparr>netG = pG, netG_buf = bG, netG_grad = None,
      netD = pD, netD_buf = bD, netD_grad = None,
      optimizerG = oG, optimizerD = oD, rng = r, train_iterator = [],
      img_list = [], G_losses = [], D_losses = [], iters = 0\<rparr>"

text \<open>The exceptions the modelled statements raise, and Python's \<^verbatim>\<open>xs[-1]\<close>.\<close>

datatype py_error =
  IndexError | RuntimeError | ValueError
  | FileExistsError | FileNotFoundError | NotADirectoryError

definition py_last :: "'a list \<Rightarrow> py_error + 'a" where
  "py_last xs = (if xs = [] then Inl IndexError else Inr (last xs))"

text \<open>
  A small environment on which the definitions can be run: the CIFAR-100 training set
  (50000 images) behind a loader of the given batch size, and arithmetic stand-ins for
  the networks.
\<close>

definition cifar_env :: "nat \<Rightarrow> env" where
  "cifar_env bs =
     \<lparr>G_net = (\<lambda>p b z. z), G_bufs = (\<lambda>p b z. map2 (+) b p), G_vjp = (\<lambda>p b z c. map sum_list c),
      D_net = (\<lambda>p b x. map sum_list x), D_bufs = (\<lambda>p b x. map2 (+) b p),
      D_vjp_par = (\<lambda>p b x c. c), D_vjp_in = (\<lambda>p b x c. map (\<lambda>y. [y]) c),
      bce = (\<lambda>out label. sum_list (map2 (-) out label)), bce_vjp = (\<lambda>out label c. map (\<lambda>y. c) out),
      adam = (\<lambda>opt p g. (map2 (-) p g, map2 (+) opt g)),
      randn = (\<lambda>r b n. (replicate b (replicate n (real r)), Suc r)),
      loader_len = DataLoader_len 50000 bs,
      loader_iter = (\<lambda>r. (replicate (DataLoader_len 50000 bs) [[1]], Suc r)),
      make_grid = concat\<rparr>"

section \<open>Losses and gradients in closed form\<close>

text \<open>
  The quantities the loop body is meant to compute, written with the environment's
  functions: the loss of the discriminator with parameters \<open>pD\<close> and running
  statistics \<open>bD\<close> on a batch, its gradient in the discriminator's parameters, and
  the gradient in the generator's parameters of the loss of the discriminator on
  the generator's output for the noise \<open>z\<close>.
\<close>

definition loss_D :: "env \<Rightarrow> vec \<Rightarrow> vec \<Rightarrow> batch \<Rightarrow> vec \<Rightarrow> real" where
  "loss_D e pD bD x label = bce e (D_net e pD bD x) label"

definition grad_D :: "env \<Rightarrow> vec \<Rightarrow> vec \<Rightarrow> batch \<Rightarrow> vec \<Rightarrow> vec" where
  "grad_D e pD bD x label = D_vjp_par e pD bD x (bce_vjp e (D_net e pD bD x) label 1)"

definition grad_G :: "env \<Rightarrow> vec \<Rightarrow> vec \<Rightarrow> batch \<Rightarrow> vec \<Rightarrow> vec \<Rightarrow> vec \<Rightarrow> vec" where
  "grad_G e pG bG z pD bD label =
     G_vjp e pG bG z
       (D_vjp_in e pD bD (G_net e pG bG z)
          (bce_vjp e (D_net e pD bD (G_net e pG bG z)) label 1))"

section \<open>A small instance\<close>

text \<open>
  One batch of one sample, a noise vector of length two, and a state in which both
  gradients are set, together with the states the three passes of a step lead to.
\<close>

definition toy_params :: hparams where
  "toy_params = \<lparr>batch_size = 1, nc = 3, nz = 2, ngf = 1, ndf = 1, dim = 32,
     n_epochs = 1, step = 2, real_label = 9 / 10, fake_label = 0\<rparr>"

definition toy_env :: env where
  "toy_env = (cifar_env 128)\<lparr>loader_len := 2, loader_iter := (\<lambda>r. ([[[1, 2]], [[3, 4]]], Suc r))\<rparr>"

definition toy_state :: train_state where
  "toy_state = (init_state [1] [2] [3] [4] [5] [6] 0)\<lparr>netG_grad := Some [7], netD_grad := Some [8]\<rparr>"

definition toy_s1 :: train_state where
  "toy_s1 = snd (D_real_pass toy_env toy_params [[1, 2]] toy_state)"

definition toy_fake :: "batch ag" where
  "toy_fake = fst (D_fake_pass toy_env toy_params 1 toy_s1)"

definition toy_s2 :: train_state where
  "toy_s2 = snd (snd (D_fake_pass toy_env toy_params 1 toy_s1))"

definition toy_s3 :: train_state where
  "toy_s3 = snd (phase_G toy_env toy_params 1 toy_fake (optimizerD_step toy_env toy_s2))"

definition toy_begin :: train_state where
  "toy_begin = toy_state\<lparr>rng := 1, train_iterator := [[[3, 4]]]\<rparr>"

section \<open>The networks as sequences of layers\<close>

text \<open>
  A tensor with its shape; the elements are kept in row-major order.  The layers of
  \<^verbatim>\<open>torch.nn\<close> that the two generators and the discriminator of \<^verbatim>\<open>DCGAN.py\<close> are
  built from, with the constructor arguments in PyTorch's order
  (\<^verbatim>\<open>in_channels, out_channels, kernel_size, stride, padding\<close>).
\<close>

record tensor =
  shape :: "nat list"
  elems :: "real list"

datatype layer =
  ConvTranspose2d nat nat nat nat nat
  | Conv2d nat nat nat nat nat
  | BatchNorm2d nat
  | ReLU
  | LeakyReLU real
  | Tanh
  | Sigmoid

text \<open>
  The spatial size a convolution produces (PyTorch's formulas, dilation 1, no output
  padding), computed over the integers; a size below 1 is refused by PyTorch.
\<close>

definition conv_transpose_size :: "nat \<Rightarrow> nat \<Rightarrow> nat \<Rightarrow> nat \<Rightarrow> int" where
  "conv_transpose_size k st p h = (int h - 1) * int st - 2 * int p + (int k - 1) + 1"

definition conv_size :: "nat \<Rightarrow> nat \<Rightarrow> nat \<Rightarrow> nat \<Rightarrow> int" where
  "conv_size k st p h = (int h + 2 * int p - int k) div int st + 1"

text \<open>
  One layer applied to a batch of images.  The weights' arithmetic of the two
  convolutions and of the normalisation is a parameter \<open>w\<close> (it gets the layer, the
  shape of the output and the input); the activations are computed.  A convolution
  takes a batch of four dimensions or one image of three, and refuses an input whose
  channels differ from \<^verbatim>\<open>in_channels\<close>; a transposed convolution also refuses an
  empty image.  A normalisation wants four dimensions and, in training mode, more
  than one value per channel.
\<close>

fun apply_layer ::
  "(layer \<Rightarrow> nat list \<Rightarrow> tensor \<Rightarrow> real list) \<Rightarrow> bool \<Rightarrow> layer \<Rightarrow> tensor \<Rightarrow> py_error + tensor" where
  "apply_layer w training (ConvTranspose2d cin cout k st p) x =
     (case shape x of
        [n, c, h, wd] \<Rightarrow>
          (if c \<noteq> cin \<or> st = 0 \<or> h = 0 \<or> wd = 0
              \<or> conv_transpose_size k st p h < 1 \<or> conv_transpose_size k st p wd < 1
           then Inl RuntimeError
           else (let out = [n, cout, nat (conv_transpose_size k st p h), nat (conv_transpose_size k st p wd)]
                 in Inr \<lparr>shape = out, elems = w (ConvTranspose2d cin cout k st p) out x\<rparr>))
      | [c, h, wd] \<Rightarrow>
          (if c \<noteq> cin \<or> st = 0 \<or> h = 0 \<or> wd = 0
              \<or> conv_transpose_size k st p h < 1 \<or> conv_transpose_size k st p wd < 1
           then Inl RuntimeError
           else (let out = [cout, nat (conv_transpose_size k st p h), nat (conv_transpose_size k st p wd)]
                 in Inr \<lparr>shape = out, elems = w (ConvTranspose2d cin cout k st p) out x\<rparr>))
      | _ \<Rightarrow> Inl RuntimeError)"
| "apply_layer w training (Conv2d cin cout k st p) x =
     (case shape x of
        [n, c, h, wd] \<Rightarrow>
          (if c \<noteq> cin \<or> st = 0 \<or> int h + 2 * int p < int k \<or> int wd + 2 * int p < int k
           then Inl RuntimeError
           else (let out = [n, cout, nat (conv_size k st p h), nat (conv_size k st p wd)]
                 in Inr \<lparr>shape = out, elems = w (Conv2d cin cout k st p) out x\<rparr>))
      | [c, h, wd] \<Rightarrow>
          (if c \<noteq> cin \<or> st = 0 \<or> int h + 2 * int p < int k \<or> int wd + 2 * int p < int k
           then Inl RuntimeError
           else (let out = [cout, nat (conv_size k st p h), nat (conv_size k st p wd)]
                 in Inr \<lparr>shape = out, elems = w (Conv2d cin cout k st p) out x\<rparr>))
      | _ \<Rightarrow> Inl RuntimeError)"
| "apply_layer w training (BatchNorm2d features) x =
     (case shape x of
        [n, c, h, wd] \<Rightarrow>
          (if c \<noteq> features then Inl RuntimeError
           else if training \<and> n * h * wd = 1 then Inl ValueError
           else Inr \<lparr>shape = shape x, elems = w (BatchNorm2d features) (shape x) x\<rparr>)
      | _ \<Rightarrow> Inl ValueError)"
| "apply_layer w training ReLU x = Inr (x\<lparr>elems := map (\<lambda>v. max 0 v) (elems x)\<rparr>)"
| "apply_layer w training (LeakyReLU slope) x =
     Inr (x\<lparr>elems := map (\<lambda>v. max 0 v + slope * min 0 v) (elems x)\<rparr>)"
| "apply_layer w training Tanh x = Inr (x\<lparr>elems := map tanh (elems x)\<rparr>)"
| "apply_layer w training Sigmoid x = Inr (x\<lparr>elems := map (\<lambda>v. 1 / (1 + exp (- v))) (elems x)\<rparr>)"

text \<open>\<^verbatim>\<open>nn.Sequential\<close>: the layers in order; the first exception ends the pass.\<close>

fun Sequential ::
  "(layer \<Rightarrow> nat list \<Rightarrow> tensor \<Rightarrow> real list) \<Rightarrow> bool \<Rightarrow> layer list \<Rightarrow> tensor \<Rightarrow> py_error + tensor" where
  "Sequential w training [] x = Inr x"
| "Sequential w training (l # ls) x =
     (case apply_layer w training l x of
        Inl err \<Rightarrow> Inl err
      | Inr y \<Rightarrow> Sequential w training ls y)"

text \<open>\<^verbatim>\<open>Generator(nc, nz, ngf)\<close> and \<^verbatim>\<open>Discriminator(nc, ndf)\<close> of \<^verbatim>\<open>DCGAN.py\<close>.\<close>

definition dcgan_Generator :: "nat \<Rightarrow> nat \<Rightarrow> nat \<Rightarrow> layer list" where
  "dcgan_Generator c z f =
     [ConvTranspose2d z (f * 2) 3 1 0, BatchNorm2d (f * 2), ReLU,
      ConvTranspose2d (f * 2) (f * 2) 3 2 1, BatchNorm2d (f * 2), ReLU,
      ConvTranspose2d (f * 2) (f * 2) 3 2 1, BatchNorm2d (f * 2), ReLU,
      ConvTranspose2d (f * 2) f 3 2 1, BatchNorm2d f, ReLU,
      ConvTranspose2d f c 3 2 1, Tanh]"

definition dcgan_Discriminator :: "nat \<Rightarrow> nat \<Rightarrow> layer list" where
  "dcgan_Discriminator c f =
     [Conv2d c f 2 2 1, LeakyReLU (2 / 10),
      Conv2d f (f * 2) 3 2 1, BatchNorm2d (f * 2), LeakyReLU (2 / 10),
      Conv2d (f * 2) (f * 2) 3 2 1, BatchNorm2d (f * 2), LeakyReLU (2 / 10),
      Conv2d (f * 2) (f * 2) 3 2 1, BatchNorm2d (f * 2), LeakyReLU (2 / 10),
      Conv2d (f * 2) 1 3 1 0, Sigmoid]"

text \<open>
  \<^verbatim>\<open>Generator()\<close> of \<^verbatim>\<open>nlzl16_generative_model.py\<close>: the same layers, written with the
  symbolic interface, with three equal blocks from a loop and a last convolution with
  kernel 4 and padding 2.
\<close>

definition nlzl_Generator :: "hparams \<Rightarrow> layer list" where
  "nlzl_Generator hp =
     [ConvTranspose2d (nz hp) (ngf hp * 2) 3 1 0, BatchNorm2d (ngf hp * 2), ReLU]
     @ concat (replicate 3
         [ConvTranspose2d (ngf hp * 2) (ngf hp * 2) 3 2 1, BatchNorm2d (ngf hp * 2), ReLU])
     @ [ConvTranspose2d (ngf hp * 2) (nc hp) 4 2 2, Tanh]"

text \<open>The shape of a result, for reading off what a pass returns.\<close>

definition result_shape :: "py_error + tensor \<Rightarrow> py_error + nat list" where
  "result_shape r = (case r of Inl err \<Rightarrow> Inl err | Inr t \<Rightarrow> Inr (shape t))"
section \<open>Tensor operations of the interpolation block\<close>

text \<open>Running one fallible statement after another.\<close>

definition then_do :: "py_error + 'a \<Rightarrow> ('a \<Rightarrow> py_error + 'b) \<Rightarrow> py_error + 'b" where
  "then_do r f = (case r of Inl err \<Rightarrow> Inl err | Inr v \<Rightarrow> f v)"

text \<open>\<^verbatim>\<open>int(np.sqrt(n))\<close>: the number of \<open>k \<ge> 1\<close> with \<open>k * k \<le> n\<close>.\<close>

definition floor_sqrt :: "nat \<Rightarrow> nat" where
  "floor_sqrt n = length (filter (\<lambda>k. k * k \<le> n) [1..<Suc n])"

text \<open>The \<open>d\<close> consecutive pieces of length \<open>row\<close> of a list: the rows along one dimension.\<close>

definition chunks :: "nat \<Rightarrow> nat \<Rightarrow> 'a list \<Rightarrow> 'a list list" where
  "chunks row d xs = map (\<lambda>i. take row (drop (i * row) xs)) [0..<d]"

text \<open>
  \<^verbatim>\<open>x[lo:hi]\<close> and \<^verbatim>\<open>x[lo:]\<close> with bounds that are not negative: a slice along the
  first dimension, with Python's clamping of the bounds.
\<close>

definition slice0 :: "nat \<Rightarrow> nat \<Rightarrow> tensor \<Rightarrow> py_error + tensor" where
  "slice0 lo hi x =
     (case shape x of
        [] \<Rightarrow> Inl IndexError
      | d # ds \<Rightarrow>
          (let lo' = min lo d; hi' = max lo' (min hi d)
           in Inr \<lparr>shape = (hi' - lo') # ds,
                   elems = take ((hi' - lo') * prod_list ds) (drop (lo' * prod_list ds) (elems x))\<rparr>))"

definition slice_from :: "nat \<Rightarrow> tensor \<Rightarrow> py_error + tensor" where
  "slice_from lo x = (case shape x of [] \<Rightarrow> Inl IndexError | d # ds \<Rightarrow> slice0 lo d x)"

text \<open>
  \<^verbatim>\<open>x.repeat(*sizes)\<close>: PyTorch refuses fewer sizes than the tensor has dimensions;
  with more, the shape is filled with leading ones.  \<open>tile\<close> repeats the elements of a
  tensor of the given shape along each dimension.
\<close>

fun tile :: "nat list \<Rightarrow> nat list \<Rightarrow> real list \<Rightarrow> real list" where
  "tile (d # ds) (r # rs) xs =
     concat (replicate r (concat (map (tile ds rs) (chunks (prod_list ds) d xs))))"
| "tile ds rs xs = xs"

definition repeat_sizes :: "nat list \<Rightarrow> tensor \<Rightarrow> py_error + tensor" where
  "repeat_sizes sizes x =
     (if length sizes < length (shape x) then Inl RuntimeError
      else (let shp = replicate (length sizes - length (shape x)) 1 @ shape x
            in Inr \<lparr>shape = map2 (*) shp sizes, elems = tile shp sizes (elems x)\<rparr>))"

text \<open>\<^verbatim>\<open>torch.linspace(a, b, steps)\<close>, \<^verbatim>\<open>unsqueeze(dim)\<close> and \<^verbatim>\<open>view(*shape)\<close>.\<close>

definition linspace :: "real \<Rightarrow> real \<Rightarrow> nat \<Rightarrow> tensor" where
  "linspace a b steps =
     \<lparr>shape = [steps],
      elems = map (\<lambda>i. if steps = 1 then a else a + (b - a) * real i / real (steps - 1)) [0..<steps]\<rparr>"

definition unsqueeze :: "nat \<Rightarrow> tensor \<Rightarrow> py_error + tensor" where
  "unsqueeze d x =
     (if length (shape x) < d then Inl IndexError
      else Inr (x\<lparr>shape := take d (shape x) @ [1] @ drop d (shape x)\<rparr>))"

definition view :: "nat list \<Rightarrow> tensor \<Rightarrow> py_error + tensor" where
  "view shp x =
     (if prod_list shp = prod_list (shape x) then Inr (x\<lparr>shape := shp\<rparr>) else Inl RuntimeError)"

text \<open>
  Arithmetic with broadcasting: the shapes are aligned at the right, a dimension of
  size one is stretched to the other operand's size, and two sizes that differ and
  are both not one are refused.  \<^verbatim>\<open>1 - t\<close> subtracts every element from the scalar.
\<close>

fun expand :: "nat list \<Rightarrow> nat list \<Rightarrow> real list \<Rightarrow> real list" where
  "expand (d # ds) (t # ts) xs =
     (if d = t then concat (map (expand ds ts) (chunks (prod_list ds) d xs))
      else concat (replicate t (expand ds ts xs)))"
| "expand ds ts xs = xs"

definition broadcast_op :: "(real \<Rightarrow> real \<Rightarrow> real) \<Rightarrow> tensor \<Rightarrow> tensor \<Rightarrow> py_error + tensor" where
  "broadcast_op f x y =
     (let n = max (length (shape x)) (length (shape y));
          sx = replicate (n - length (shape x)) 1 @ shape x;
          sy = replicate (n - length (shape y)) 1 @ shape y;
          out = map2 (\<lambda>a b. if a = 1 then b else a) sx sy
      in if list_all2 (\<lambda>a b. a = b \<or> a = 1 \<or> b = 1) sx sy
         then Inr \<lparr>shape = out, elems = map2 f (expand sx out (elems x)) (expand sy out (elems y))\<rparr>
         else Inl RuntimeError)"

definition scalar_minus :: "real \<Rightarrow> tensor \<Rightarrow> tensor" where
  "scalar_minus c x = x\<lparr>elems := map (\<lambda>v. c - v) (elems x)\<rparr>"

section \<open>The interpolation blocks\<close>

text \<open>
  \<^verbatim>\<open>DCGAN.py\<close>, lines 270 to 279, on the noise \<^verbatim>\<open>sample_noise\<close> of shape
  \<open>(n_samples, nz, 1, 1)\<close> drawn in line 266: the two end points, the fractions, the
  interpolated latents, and their images under the generator, which the script has
  left in training mode.
\<close>

definition dcgan_lerp_z :: "hparams \<Rightarrow> tensor \<Rightarrow> py_error + tensor" where
  "dcgan_lerp_z hp sample_noise =
     (let col_size = floor_sqrt (batch_size hp) in
      then_do (slice0 0 col_size sample_noise) (\<lambda>top.
      then_do (repeat_sizes [col_size, 1] top) (\<lambda>z0.
      then_do (slice_from (batch_size hp - col_size) sample_noise) (\<lambda>bottom.
      then_do (repeat_sizes [col_size, 1] bottom) (\<lambda>z1.
      then_do (unsqueeze 1 (linspace 0 1 col_size)) (\<lambda>column.
      then_do (repeat_sizes [1, col_size] column) (\<lambda>grid.
      then_do (view [batch_size hp, 1] grid) (\<lambda>t.
      then_do (broadcast_op (*) (scalar_minus 1 t) z0) (\<lambda>left.
      then_do (broadcast_op (*) t z1) (\<lambda>right.
      broadcast_op (+) left right))))))))))"

definition dcgan_interpolation ::
  "(layer \<Rightarrow> nat list \<Rightarrow> tensor \<Rightarrow> real list) \<Rightarrow> hparams \<Rightarrow> tensor \<Rightarrow> py_error + tensor" where
  "dcgan_interpolation w hp sample_noise =
     then_do (dcgan_lerp_z hp sample_noise)
       (Sequential w True (dcgan_Generator (nc hp) (nz hp) (ngf hp)))"

text \<open>
  \<^verbatim>\<open>nlzl16_generative_model.py\<close>, lines 289 to 299, on a noise of shape
  \<open>(batch_size, nz, 1, 1)\<close>; the generator is in evaluation mode (line 284).
\<close>

definition nlzl_lerp_z :: "hparams \<Rightarrow> tensor \<Rightarrow> py_error + tensor" where
  "nlzl_lerp_z hp sample_noise =
     (let col_size = floor_sqrt (batch_size hp) in
      then_do (slice0 0 col_size sample_noise) (\<lambda>top.
      then_do (repeat_sizes [col_size, 1, 1, 1] top) (\<lambda>z0.
      then_do (slice_from (batch_size hp - col_size) sample_noise) (\<lambda>bottom.
      then_do (repeat_sizes [col_size, 1, 1, 1] bottom) (\<lambda>z1.
      then_do (unsqueeze 1 (linspace 0 1 col_size)) (\<lambda>column.
      then_do (repeat_sizes [1, col_size] column) (\<lambda>grid.
      then_do (view [batch_size hp, 1, 1, 1] grid) (\<lambda>t.
      then_do (broadcast_op (*) (scalar_minus 1 t) z0) (\<lambda>left.
      then_do (broadcast_op (*) t z1) (\<lambda>right.
      broadcast_op (+) left right))))))))))"

definition nlzl_interpolation ::
  "(layer \<Rightarrow> nat list \<Rightarrow> tensor \<Rightarrow> real list) \<Rightarrow> hparams \<Rightarrow> tensor \<Rightarrow> py_error + tensor" where
  "nlzl_interpolation w hp sample_noise =
     then_do (nlzl_lerp_z hp sample_noise) (Sequential w False (nlzl_Generator hp))"

text \<open>A grid of two by two latents of length two, for running the block.\<close>

definition grid_params :: hparams where
  "grid_params = \<lparr>batch_size = 4, nc = 3, nz = 2, ngf = 64, ndf = 64, dim = 32,
     n_epochs = 1, step = 2, real_label = 9 / 10, fake_label = 0\<rparr>"

definition grid_noise :: tensor where
  "grid_noise = \<lparr>shape = [4, 2, 1, 1], elems = [1, 2, 3, 4, 5, 6, 7, 8]\<rparr>"

section \<open>Directories of images\<close>

text \<open>
  The part of the file system the scripts touch: the working directory maps a name to
  a plain file or to a directory of image files.  \<^verbatim>\<open>os.path.exists\<close>,
  \<^verbatim>\<open>shutil.rmtree\<close>, \<^verbatim>\<open>os.makedirs\<close> and \<^verbatim>\<open>save_image\<close> on it, with the exceptions
  they raise.
\<close>

datatype node = File | Dir "string \<Rightarrow> vec option"

type_synonym fs = "string \<Rightarrow> node option"

definition real_images_dir :: string where
  "real_images_dir = ''real_images''"

definition generated_images_dir :: string where
  "generated_images_dir = ''generated_images''"

definition sample_dir :: string where
  "sample_dir = ''training_images''"

definition rmtree :: "string \<Rightarrow> fs \<Rightarrow> py_error + fs" where
  "rmtree d fs =
     (case fs d of
        None \<Rightarrow> Inl FileNotFoundError
      | Some File \<Rightarrow> Inl NotADirectoryError
      | Some (Dir files) \<Rightarrow> Inr (fs(d := None)))"

definition makedirs :: "string \<Rightarrow> fs \<Rightarrow> py_error + fs" where
  "makedirs d fs =
     (case fs d of
        None \<Rightarrow> Inr (fs(d \<mapsto> Dir Map.empty))
      | Some n \<Rightarrow> Inl FileExistsError)"

text \<open>\<^verbatim>\<open>setup_directory\<close>, the same function in both scripts.\<close>

definition setup_directory :: "string \<Rightarrow> fs \<Rightarrow> py_error + fs" where
  "setup_directory directory fs =
     then_do (if fs directory \<noteq> None then rmtree directory fs else Inr fs)
       (makedirs directory)"

definition save_image :: "vec \<Rightarrow> string \<Rightarrow> string \<Rightarrow> fs \<Rightarrow> py_error + fs" where
  "save_image im d name fs =
     (case fs d of
        None \<Rightarrow> Inl FileNotFoundError
      | Some File \<Rightarrow> Inl NotADirectoryError
      | Some (Dir files) \<Rightarrow> Inr (fs(d \<mapsto> Dir (files(name \<mapsto> im)))))"

text \<open>The decimal digits of a number, as an f-string prints it, and the two file names.\<close>

fun str_nat :: "nat \<Rightarrow> string" where
  "str_nat n =
     (if n < 10 then [''0123456789'' ! n]
      else str_nat (n div 10) @ [''0123456789'' ! (n mod 10)])"

definition gen_img_name :: "nat \<Rightarrow> string" where
  "gen_img_name n = ''gen_img_'' @ str_nat n @ ''.png''"

definition sample_name :: "nat \<Rightarrow> string" where
  "sample_name n = ''sample_'' @ str_nat n @ ''.png''"

text \<open>
  \<^verbatim>\<open>DCGAN.py\<close>, lines 288 to 291: the directory is set up and the samples are saved
  under their index.  The script reaches these lines only through the interpolation
  block before them; \<open>dcgan_after_training\<close> below runs the two in that order.
\<close>

fun save_images :: "vec list \<Rightarrow> nat \<Rightarrow> fs \<Rightarrow> py_error + fs" where
  "save_images [] n fs = Inr fs"
| "save_images (im # rest) n fs =
     (case save_image im generated_images_dir (gen_img_name n) fs of
        Inl err \<Rightarrow> Inl err
      | Inr fs' \<Rightarrow> save_images rest (Suc n) fs')"

definition dcgan_files :: "vec list \<Rightarrow> fs \<Rightarrow> py_error + fs" where
  "dcgan_files fake fs = then_do (setup_directory generated_images_dir fs) (save_images fake 0)"

text \<open>
  \<^verbatim>\<open>DCGAN.py\<close> after the training loop, in the order of the script: the interpolation
  block on the noise of line 266 (lines 270 to 279), then the statements of lines 288
  to 291 on the samples \<open>fake\<close> of line 267.  The result is the exception the run
  ends with, if any, and the file system it leaves.  An exception of the interpolation
  block comes before any file operation; in lines 288 to 291 the one statement that
  can raise is \<^verbatim>\<open>shutil.rmtree\<close> on a plain file, which has changed nothing either.
\<close>

definition dcgan_after_training ::
  "(layer \<Rightarrow> nat list \<Rightarrow> tensor \<Rightarrow> real list) \<Rightarrow> hparams \<Rightarrow> tensor \<Rightarrow> vec list \<Rightarrow> fs
     \<Rightarrow> py_error option \<times> fs" where
  "dcgan_after_training w hp sample_noise fake fs =
     (case dcgan_interpolation w hp sample_noise of
        Inl err \<Rightarrow> (Some err, fs)
      | Inr lerp_g \<Rightarrow>
          (case dcgan_files fake fs of
             Inl err \<Rightarrow> (Some err, fs)
           | Inr fs' \<Rightarrow> (None, fs')))"

text \<open>
  \<^verbatim>\<open>nlzl16_generative_model.py\<close>: both directories are set up before training
  (lines 193 and 194), the training loop saves a picture under the step count every
  5000 steps (line 277), and after training the samples are saved in batches of 100
  until \<^verbatim>\<open>num\<close> reaches \<^verbatim>\<open>n_samples\<close> (lines 313 to 321).  The pictures are given as the
  list of step counts and images the loop saves, the samples by the image saved under
  each number.
\<close>

fun save_samples :: "(nat \<times> vec) list \<Rightarrow> fs \<Rightarrow> py_error + fs" where
  "save_samples [] fs = Inr fs"
| "save_samples ((k, im) # rest) fs =
     (case save_image im sample_dir (sample_name k) fs of
        Inl err \<Rightarrow> Inl err
      | Inr fs' \<Rightarrow> save_samples rest fs')"

fun save_batch :: "(nat \<Rightarrow> vec) \<Rightarrow> nat \<Rightarrow> nat \<Rightarrow> fs \<Rightarrow> py_error + fs" where
  "save_batch img num 0 fs = Inr fs"
| "save_batch img num (Suc k) fs =
     (case save_image (img num) generated_images_dir (gen_img_name num) fs of
        Inl err \<Rightarrow> Inl err
      | Inr fs' \<Rightarrow> save_batch img (Suc num) k fs')"

function nlzl_sampling :: "(nat \<Rightarrow> vec) \<Rightarrow> nat \<Rightarrow> nat \<Rightarrow> fs \<Rightarrow> py_error + fs" where
  "nlzl_sampling img n_samples num fs =
     (if num < n_samples
      then (case save_batch img num 100 fs of
              Inl err \<Rightarrow> Inl err
            | Inr fs' \<Rightarrow> nlzl_sampling img n_samples (num + 100) fs')
      else Inr fs)"
  by pat_completeness auto
termination
  by (relation "measure (\<lambda>(img, n_samples, num, fs). n_samples - num)") auto

definition nlzl_files :: "(nat \<times> vec) list \<Rightarrow> (nat \<Rightarrow> vec) \<Rightarrow> nat \<Rightarrow> fs \<Rightarrow> py_error + fs" where
  "nlzl_files pictures img n_samples fs =
     then_do (setup_directory sample_dir fs) (\<lambda>fs1.
     then_do (setup_directory generated_images_dir fs1) (\<lambda>fs2.
     then_do (save_samples pictures fs2) (nlzl_sampling img n_samples 0)))"

text \<open>The files of a directory, for reading off what a run leaves; a file system with old files.\<close>

definition listing :: "fs \<Rightarrow> string \<Rightarrow> string \<Rightarrow> vec option" where
  "listing fs d name = (case fs d of Some (Dir files) \<Rightarrow> files name | _ \<Rightarrow> None)"

definition stale_fs :: fs where
  "stale_fs =
     [real_images_dir \<mapsto> Dir [''stale.png'' \<mapsto> [0]],
      generated_images_dir \<mapsto> Dir [''stale.png'' \<mapsto> [0]]]"

definition numbered :: "nat \<Rightarrow> vec" where
  "numbered n = [real n]"

text \<open>A noise of the shape of line 266 of \<^verbatim>\<open>DCGAN.py\<close>, and weights that are all zero.\<close>

definition sample_noise0 :: tensor where
  "sample_noise0 = \<lparr>shape = [10000, 100, 1, 1], elems = replicate 1000000 0\<rparr>"

definition zero_weights :: "layer \<Rightarrow> nat list \<Rightarrow> tensor \<Rightarrow> real list" where
  "zero_weights l out x = replicate (prod_list out) 0"

section \<open>Frame properties of the loop body\<close>

lemma backward_frame:
  "G_losses (backward l s) = G_losses s" "D_losses (backward l s) = D_losses s"
  "img_list (backward l s) = img_list s" "iters (backward l s) = iters s"
  "netG (backward l s) = netG s" "netD (backward l s) = netD s"
  "optimizerG (backward l s) = optimizerG s" "optimizerD (backward l s) = optimizerD s"
  "netG_buf (backward l s) = netG_buf s" "netD_buf (backward l s) = netD_buf s"
  "rng (backward l s) = rng s" "train_iterator (backward l s) = train_iterator s"
  by (simp_all add: backward_def split: prod.splits)

lemma optimizerD_step_frame:
  "G_losses (optimizerD_step e s) = G_losses s" "D_losses (optimizerD_step e s) = D_losses s"
  "img_list (optimizerD_step e s) = img_list s" "iters (optimizerD_step e s) = iters s"
  "netG (optimizerD_step e s) = netG s" "optimizerG (optimizerD_step e s) = optimizerG s"
  "netG_buf (optimizerD_step e s) = netG_buf s" "netD_buf (optimizerD_step e s) = netD_buf s"
  "netG_grad (optimizerD_step e s) = netG_grad s" "netD_grad (optimizerD_step e s) = netD_grad s"
  "rng (optimizerD_step e s) = rng s" "train_iterator (optimizerD_step e s) = train_iterator s"
  by (simp_all add: optimizerD_step_def split: prod.splits option.splits)

lemma optimizerG_step_frame:
  "G_losses (optimizerG_step e s) = G_losses s" "D_losses (optimizerG_step e s) = D_losses s"
  "img_list (optimizerG_step e s) = img_list s" "iters (optimizerG_step e s) = iters s"
  "netD (optimizerG_step e s) = netD s" "optimizerD (optimizerG_step e s) = optimizerD s"
  "netG_buf (optimizerG_step e s) = netG_buf s" "netD_buf (optimizerG_step e s) = netD_buf s"
  "netG_grad (optimizerG_step e s) = netG_grad s" "netD_grad (optimizerG_step e s) = netD_grad s"
  "rng (optimizerG_step e s) = rng s" "train_iterator (optimizerG_step e s) = train_iterator s"
  by (simp_all add: optimizerG_step_def split: prod.splits option.splits)

lemma netD_call_frame:
  "G_losses (snd (netD_call e x s)) = G_losses s" "D_losses (snd (netD_call e x s)) = D_losses s"
  "img_list (snd (netD_call e x s)) = img_list s" "iters (snd (netD_call e x s)) = iters s"
  "netG (snd (netD_call e x s)) = netG s" "netD (snd (netD_call e x s)) = netD s"
  "optimizerG (snd (netD_call e x s)) = optimizerG s" "optimizerD (snd (netD_call e x s)) = optimizerD s"
  "netG_buf (snd (netD_call e x s)) = netG_buf s"
  "netG_grad (snd (netD_call e x s)) = netG_grad s" "netD_grad (snd (netD_call e x s)) = netD_grad s"
  "rng (snd (netD_call e x s)) = rng s" "train_iterator (snd (netD_call e x s)) = train_iterator s"
  by (simp_all add: netD_call_def)

lemma netG_call_frame:
  "G_losses (snd (netG_call e x s)) = G_losses s" "D_losses (snd (netG_call e x s)) = D_losses s"
  "img_list (snd (netG_call e x s)) = img_list s" "iters (snd (netG_call e x s)) = iters s"
  "netG (snd (netG_call e x s)) = netG s" "netD (snd (netG_call e x s)) = netD s"
  "optimizerG (snd (netG_call e x s)) = optimizerG s" "optimizerD (snd (netG_call e x s)) = optimizerD s"
  "netD_buf (snd (netG_call e x s)) = netD_buf s"
  "netG_grad (snd (netG_call e x s)) = netG_grad s" "netD_grad (snd (netG_call e x s)) = netD_grad s"
  "rng (snd (netG_call e x s)) = rng s" "train_iterator (snd (netG_call e x s)) = train_iterator s"
  by (simp_all add: netG_call_def)

lemmas frames = backward_frame optimizerD_step_frame optimizerG_step_frame netD_call_frame netG_call_frame

lemma D_real_pass_log:
  "G_losses (snd (D_real_pass e hp data s)) = G_losses s"
  "D_losses (snd (D_real_pass e hp data s)) = D_losses s"
  "img_list (snd (D_real_pass e hp data s)) = img_list s"
  "iters (snd (D_real_pass e hp data s)) = iters s"
  by (simp_all add: D_real_pass_def Let_def case_prod_beta frames)

lemma D_fake_pass_log:
  "G_losses (snd (snd (D_fake_pass e hp b s))) = G_losses s"
  "D_losses (snd (snd (D_fake_pass e hp b s))) = D_losses s"
  "img_list (snd (snd (D_fake_pass e hp b s))) = img_list s"
  "iters (snd (snd (D_fake_pass e hp b s))) = iters s"
  by (simp_all add: D_fake_pass_def Let_def case_prod_beta frames)

lemma dcgan_phase_D_log:
  "G_losses (snd (snd (dcgan_phase_D e hp data s))) = G_losses s"
  "D_losses (snd (snd (dcgan_phase_D e hp data s))) = D_losses s"
  "img_list (snd (snd (dcgan_phase_D e hp data s))) = img_list s"
  "iters (snd (snd (dcgan_phase_D e hp data s))) = iters s"
  by (simp_all add: dcgan_phase_D_def Let_def case_prod_beta frames D_real_pass_log D_fake_pass_log)

lemma nlzl_phase_D_log:
  "G_losses (snd (snd (nlzl_phase_D e hp data s))) = G_losses s"
  "D_losses (snd (snd (nlzl_phase_D e hp data s))) = D_losses s"
  "img_list (snd (snd (nlzl_phase_D e hp data s))) = img_list s"
  "iters (snd (snd (nlzl_phase_D e hp data s))) = iters s"
  by (simp_all add: nlzl_phase_D_def Let_def case_prod_beta frames D_real_pass_log D_fake_pass_log)

lemma phase_G_log:
  "G_losses (snd (phase_G e hp b fake s)) = G_losses s"
  "D_losses (snd (phase_G e hp b fake s)) = D_losses s"
  "img_list (snd (phase_G e hp b fake s)) = img_list s"
  "iters (snd (phase_G e hp b fake s)) = iters s"
  by (simp_all add: phase_G_def Let_def case_prod_beta frames)

lemma cycle_next_total:
  assumes "\<And>r. fst (loader_iter e r) \<noteq> []"
  shows "\<exists>y. cycle_next e rest r = Some y"
proof (cases rest)
  case Nil
  obtain p r' where pr: "loader_iter e r = (p, r')" by (cases "loader_iter e r")
  with assms [of r] obtain x xs where "p = x # xs" by (cases p) auto
  with Nil pr show ?thesis
    by (subst cycle_next.simps, simp, subst cycle_next.simps, simp)
next
  case (Cons x xs)
  then show ?thesis by (subst cycle_next.simps) simp
qed

lemma dcgan_step_log:
  assumes "dcgan_step e hp fx epoch i s = Some s'"
  shows "length (G_losses s') = Suc (length (G_losses s))"
    and "length (D_losses s') = Suc (length (D_losses s))"
    and "iters s' = Suc (iters s)"
    and "length (img_list s') = length (img_list s) + (if int epoch + 1 = n_epochs hp \<and> int i = int (loader_len e) - 1 then 1 else 0)"
  using assms
  by (auto simp add: dcgan_step_def Let_def case_prod_beta dcgan_snapshot_def frames
      dcgan_phase_D_log phase_G_log split: option.splits if_splits)

lemma dcgan_step_total:
  assumes "\<And>r. fst (loader_iter e r) \<noteq> []"
  shows "\<exists>s'. dcgan_step e hp fx epoch i s = Some s'"
  using cycle_next_total [OF assms, of "train_iterator s" "rng s"]
  by (auto simp add: dcgan_step_def Let_def case_prod_beta)

lemma count_eq_upt: "length (filter (\<lambda>i. int i = k) [0..<n]) = (if 0 \<le> k \<and> k < int n then 1 else 0)"
  by (induction n) auto

lemma dcgan_inner_log:
  assumes "\<And>r. fst (loader_iter e r) \<noteq> []"
  shows "\<exists>s'. dcgan_inner e hp fx epoch js s = Some s'
      \<and> length (G_losses s') = length (G_losses s) + length js
      \<and> length (D_losses s') = length (D_losses s) + length js
      \<and> iters s' = iters s + length js
      \<and> length (img_list s') = length (img_list s)
         + (if int epoch + 1 = n_epochs hp
            then length (filter (\<lambda>i. int i = int (loader_len e) - 1) js) else 0)"
proof (induction js arbitrary: s)
  case Nil
  show ?case by simp
next
  case (Cons j js)
  obtain s1 where s1: "dcgan_step e hp fx epoch j s = Some s1"
    using dcgan_step_total [OF assms] by blast
  obtain s2 where s2: "dcgan_inner e hp fx epoch js s1 = Some s2"
    and l2: "length (G_losses s2) = length (G_losses s1) + length js"
      "length (D_losses s2) = length (D_losses s1) + length js"
      "iters s2 = iters s1 + length js"
      "length (img_list s2) = length (img_list s1)
         + (if int epoch + 1 = n_epochs hp
            then length (filter (\<lambda>i. int i = int (loader_len e) - 1) js) else 0)"
    using Cons.IH [of s1] by blast
  have "dcgan_inner e hp fx epoch (j # js) s = Some s2"
    using s1 s2 by simp
  then show ?case
    using l2 dcgan_step_log [OF s1] by auto
qed

lemma dcgan_outer_log:
  assumes "\<And>r. fst (loader_iter e r) \<noteq> []"
  shows "\<exists>s'. dcgan_outer e hp fx es s = Some s'
      \<and> length (G_losses s') = length (G_losses s) + length es * 1000
      \<and> length (D_losses s') = length (D_losses s) + length es * 1000
      \<and> iters s' = iters s + length es * 1000
      \<and> length (img_list s') = length (img_list s)
         + length (filter (\<lambda>ep. int ep = n_epochs hp - 1) es)
           * (if 0 < loader_len e \<and> loader_len e \<le> 1000 then 1 else 0)"
proof (induction es arbitrary: s)
  case Nil
  show ?case by simp
next
  case (Cons ep es)
  obtain s1 where s1: "dcgan_inner e hp fx ep [0..<1000] s = Some s1"
    and l1: "length (G_losses s1) = length (G_losses s) + 1000"
      "length (D_losses s1) = length (D_losses s) + 1000"
      "iters s1 = iters s + 1000"
      "length (img_list s1) = length (img_list s)
         + (if int ep + 1 = n_epochs hp
            then length (filter (\<lambda>i. int i = int (loader_len e) - 1) [0..<1000]) else 0)"
    using dcgan_inner_log [OF assms, of hp fx ep "[0..<1000]" s] by auto
  obtain s2 where s2: "dcgan_outer e hp fx es s1 = Some s2"
    and l2: "length (G_losses s2) = length (G_losses s1) + length es * 1000"
      "length (D_losses s2) = length (D_losses s1) + length es * 1000"
      "iters s2 = iters s1 + length es * 1000"
      "length (img_list s2) = length (img_list s1)
         + length (filter (\<lambda>ep. int ep = n_epochs hp - 1) es)
           * (if 0 < loader_len e \<and> loader_len e \<le> 1000 then 1 else 0)"
    using Cons.IH [of s1] by blast
  have "dcgan_outer e hp fx (ep # es) s = Some s2"
    using s1 s2 by simp
  moreover have "length (filter (\<lambda>i. int i = int (loader_len e) - 1) [0..<1000])
      = (if 0 < loader_len e \<and> loader_len e \<le> 1000 then 1 else 0)"
    by (simp only: count_eq_upt) auto
  ultimately show ?case
    using l1 l2 by auto
qed

lemma dcgan_train_log:
  assumes "\<And>r. fst (loader_iter e r) \<noteq> []"
  shows "\<exists>s'. dcgan_train e hp fx s = Some s'
      \<and> length (G_losses s') = length (G_losses s) + nat (n_epochs hp) * 1000
      \<and> length (D_losses s') = length (D_losses s) + nat (n_epochs hp) * 1000
      \<and> iters s' = iters s + nat (n_epochs hp) * 1000
      \<and> length (img_list s') = length (img_list s)
         + (if 1 \<le> n_epochs hp \<and> 0 < loader_len e \<and> loader_len e \<le> 1000 then 1 else 0)"
proof -
  have "length (filter (\<lambda>ep. int ep = n_epochs hp - 1) [0..<nat (n_epochs hp)])
      = (if 1 \<le> n_epochs hp then 1 else 0)"
    by (simp only: count_eq_upt) auto
  then show ?thesis
    using dcgan_outer_log [OF assms, of hp fx "[0..<nat (n_epochs hp)]" s]
    unfolding dcgan_train_def by auto
qed

lemma nlzl_step_log:
  "length (G_losses (nlzl_step e hp fx data s)) = Suc (length (G_losses s))"
  "length (D_losses (nlzl_step e hp fx data s)) = Suc (length (D_losses s))"
  "iters (nlzl_step e hp fx data s) = Suc (iters s)"
  "img_list (nlzl_step e hp fx data s) = img_list s"
  by (simp_all add: nlzl_step_def Let_def case_prod_beta frames nlzl_phase_D_log phase_G_log)

lemma nlzl_for_log:
  "int (length (G_losses (nlzl_for e hp fx pass s))) - int (iters (nlzl_for e hp fx pass s))
     = int (length (G_losses s)) - int (iters s)
   \<and> int (length (D_losses (nlzl_for e hp fx pass s))) - int (iters (nlzl_for e hp fx pass s))
     = int (length (D_losses s)) - int (iters s)
   \<and> int (iters (nlzl_for e hp fx pass s))
     = (if int (iters s) < step hp then min (step hp) (int (iters s) + int (length pass))
        else int (iters s))"
proof (induction pass arbitrary: s)
  case Nil
  show ?case by simp
next
  case (Cons d pass)
  show ?case
  proof (cases "step hp \<le> int (iters s)")
    case True
    then show ?thesis by simp
  next
    case False
    define s1 where "s1 = nlzl_step e hp fx d s"
    have s1: "int (length (G_losses s1)) = int (length (G_losses s)) + 1"
      "int (length (D_losses s1)) = int (length (D_losses s)) + 1"
      "int (iters s1) = int (iters s) + 1"
      unfolding s1_def by (simp_all add: nlzl_step_log)
    have eq: "nlzl_for e hp fx (d # pass) s = nlzl_for e hp fx pass s1"
      using False unfolding s1_def by simp
    show ?thesis
      unfolding eq using Cons.IH [of s1] s1 False
      by (auto simp add: min_def)
  qed
qed

lemma nlzl_train_log:
  assumes "\<And>r. fst (loader_iter e r) \<noteq> []"
  shows "\<exists>s'. nlzl_train e hp fx s = Some s'
      \<and> length (G_losses s') = length (G_losses s) + nat (step hp - int (iters s))
      \<and> length (D_losses s') = length (D_losses s) + nat (step hp - int (iters s))
      \<and> int (iters s') = max (step hp) (int (iters s))"
proof (induction "nat (step hp - int (iters s))" arbitrary: s rule: less_induct)
  case less
  show ?case
  proof (cases "int (iters s) < step hp")
    case False
    then show ?thesis
      by (subst nlzl_train.simps) simp
  next
    case True
    obtain pass r where pr: "loader_iter e (rng s) = (pass, r)"
      by (cases "loader_iter e (rng s)")
    with assms [of "rng s"] have ne: "pass \<noteq> []" by simp
    define t where "t = nlzl_for e hp fx pass (s\<lparr>rng := r\<rparr>)"
    have t: "int (length (G_losses t)) - int (iters t) = int (length (G_losses s)) - int (iters s)"
      "int (length (D_losses t)) - int (iters t) = int (length (D_losses s)) - int (iters s)"
      "int (iters t) = min (step hp) (int (iters s) + int (length pass))"
      using nlzl_for_log [of e hp fx pass "s\<lparr>rng := r\<rparr>"] True
      unfolding t_def by simp_all
    from ne have "0 < int (length pass)" by simp
    with t(3) True have lt: "nat (step hp - int (iters t)) < nat (step hp - int (iters s))"
      and le: "int (iters t) \<le> step hp" and ge: "int (iters s) \<le> int (iters t)"
      by linarith+
    obtain s' where s': "nlzl_train e hp fx t = Some s'"
      "length (G_losses s') = length (G_losses t) + nat (step hp - int (iters t))"
      "length (D_losses s') = length (D_losses t) + nat (step hp - int (iters t))"
      "int (iters s') = max (step hp) (int (iters t))"
      using less [OF lt] by blast
    have run: "nlzl_train e hp fx s = Some s'"
      using True pr s'(1) unfolding t_def
      by (subst nlzl_train.simps) simp
    have g: "length (G_losses s') = length (G_losses s) + nat (step hp - int (iters s))"
      using s'(2) t(1) le ge True by linarith
    have d: "length (D_losses s') = length (D_losses s) + nat (step hp - int (iters s))"
      using s'(3) t(2) le ge True by linarith
    have i: "int (iters s') = max (step hp) (int (iters s))"
      using s'(4) le True by linarith
    show ?thesis
      using run g d i by blast
  qed
qed
section \<open>The loop body in closed form\<close>

lemma accumulate_simps:
  "accumulate g None = g"
  "accumulate None c = c"
  "accumulate None (Some d) = Some d"
  "accumulate (Some a) (Some d) = Some (map2 (+) a d)"
  by (simp_all add: accumulate_def split: option.splits)

lemma D_real_pass_fields:
  "val (fst (D_real_pass e hp data s))
     = loss_D e (netD s) (netD_buf s) data (replicate (length data) (real_label hp))"
  "netD_grad (snd (D_real_pass e hp data s))
     = Some (grad_D e (netD s) (netD_buf s) data (replicate (length data) (real_label hp)))"
  "netG_grad (snd (D_real_pass e hp data s)) = netG_grad s"
  "netD_buf (snd (D_real_pass e hp data s)) = D_bufs e (netD s) (netD_buf s) data"
  "netG_buf (snd (D_real_pass e hp data s)) = netG_buf s"
  "netG (snd (D_real_pass e hp data s)) = netG s"
  "netD (snd (D_real_pass e hp data s)) = netD s"
  "optimizerG (snd (D_real_pass e hp data s)) = optimizerG s"
  "optimizerD (snd (D_real_pass e hp data s)) = optimizerD s"
  "rng (snd (D_real_pass e hp data s)) = rng s"
  "train_iterator (snd (D_real_pass e hp data s)) = train_iterator s"
  by (simp_all add: D_real_pass_def Let_def netD_call_def criterion_def backward_def leaf_def
      accumulate_simps loss_D_def grad_D_def)

lemma D_fake_pass_fields:
  "val (fst (D_fake_pass e hp b s))
     = G_net e (netG s) (netG_buf s) (fst (randn e (rng s) b (nz hp)))"
  "pull (fst (D_fake_pass e hp b s))
     = (\<lambda>c. (Some (G_vjp e (netG s) (netG_buf s) (fst (randn e (rng s) b (nz hp))) c), None))"
  "val (fst (snd (D_fake_pass e hp b s)))
     = loss_D e (netD s) (netD_buf s)
         (G_net e (netG s) (netG_buf s) (fst (randn e (rng s) b (nz hp))))
         (replicate b (fake_label hp))"
  "pull (fst (snd (D_fake_pass e hp b s))) c
     = (None, Some (D_vjp_par e (netD s) (netD_buf s)
         (G_net e (netG s) (netG_buf s) (fst (randn e (rng s) b (nz hp))))
         (bce_vjp e (D_net e (netD s) (netD_buf s)
           (G_net e (netG s) (netG_buf s) (fst (randn e (rng s) b (nz hp)))))
           (replicate b (fake_label hp)) c)))"
  "netD_grad (snd (snd (D_fake_pass e hp b s)))
     = accumulate (netD_grad s)
         (Some (grad_D e (netD s) (netD_buf s)
            (G_net e (netG s) (netG_buf s) (fst (randn e (rng s) b (nz hp))))
            (replicate b (fake_label hp))))"
  "netG_grad (snd (snd (D_fake_pass e hp b s))) = netG_grad s"
  "netD_buf (snd (snd (D_fake_pass e hp b s)))
     = D_bufs e (netD s) (netD_buf s)
         (G_net e (netG s) (netG_buf s) (fst (randn e (rng s) b (nz hp))))"
  "netG_buf (snd (snd (D_fake_pass e hp b s)))
     = G_bufs e (netG s) (netG_buf s) (fst (randn e (rng s) b (nz hp)))"
  "netG (snd (snd (D_fake_pass e hp b s))) = netG s"
  "netD (snd (snd (D_fake_pass e hp b s))) = netD s"
  "optimizerG (snd (snd (D_fake_pass e hp b s))) = optimizerG s"
  "optimizerD (snd (snd (D_fake_pass e hp b s))) = optimizerD s"
  "rng (snd (snd (D_fake_pass e hp b s))) = snd (randn e (rng s) b (nz hp))"
  "train_iterator (snd (snd (D_fake_pass e hp b s))) = train_iterator s"
  by (simp_all add: D_fake_pass_def Let_def case_prod_beta netD_call_def netG_call_def criterion_def
      backward_def detach_def accumulate_simps loss_D_def grad_D_def)

lemma phase_G_fields:
  "fst (phase_G e hp b fake s)
     = loss_D e (netD s) (netD_buf s) (val fake) (replicate b (real_label hp))"
  "netG_grad (snd (phase_G e hp b fake s))
     = fst (pull fake (D_vjp_in e (netD s) (netD_buf s) (val fake)
         (bce_vjp e (D_net e (netD s) (netD_buf s) (val fake)) (replicate b (real_label hp)) 1)))"
  "netD (snd (phase_G e hp b fake s)) = netD s"
  "optimizerD (snd (phase_G e hp b fake s)) = optimizerD s"
  "netD_buf (snd (phase_G e hp b fake s)) = D_bufs e (netD s) (netD_buf s) (val fake)"
  "netG_buf (snd (phase_G e hp b fake s)) = netG_buf s"
  "rng (snd (phase_G e hp b fake s)) = rng s"
  "train_iterator (snd (phase_G e hp b fake s)) = train_iterator s"
  by (simp_all add: phase_G_def Let_def case_prod_beta netD_call_def criterion_def
      backward_def accumulate_simps loss_D_def optimizerG_step_frame)

lemma optimizerD_step_Some:
  assumes "netD_grad s = Some g"
  shows "netD (optimizerD_step e s) = fst (adam e (optimizerD s) (netD s) g)"
    and "optimizerD (optimizerD_step e s) = snd (adam e (optimizerD s) (netD s) g)"
  using assms by (simp_all add: optimizerD_step_def case_prod_beta)

lemma optimizerG_step_Some:
  assumes "netG_grad s = Some g"
  shows "netG (optimizerG_step e s) = fst (adam e (optimizerG s) (netG s) g)"
    and "optimizerG (optimizerG_step e s) = snd (adam e (optimizerG s) (netG s) g)"
  using assms by (simp_all add: optimizerG_step_def case_prod_beta)

lemma phase_G_pre_step:
  "optimizerG (snd (phase_G e hp b fake s)) =
     (case netG_grad (snd (phase_G e hp b fake s)) of
        None \<Rightarrow> optimizerG s
      | Some g \<Rightarrow> snd (adam e (optimizerG s) (netG s) g))"
  "netG (snd (phase_G e hp b fake s)) =
     (case netG_grad (snd (phase_G e hp b fake s)) of
        None \<Rightarrow> netG s
      | Some g \<Rightarrow> fst (adam e (optimizerG s) (netG s) g))"
  by (simp_all add: phase_G_def Let_def case_prod_beta netD_call_def criterion_def
      backward_def accumulate_simps optimizerG_step_def split: option.splits)

lemma nlzl_phase_D_eq: "nlzl_phase_D e hp data s = dcgan_phase_D e hp data s"
  by (simp add: nlzl_phase_D_def dcgan_phase_D_def Let_def case_prod_beta add.commute)

lemma dcgan_phase_D_fields:
  fixes e hp data s
  defines "b \<equiv> length data"
  defines "x \<equiv> G_net e (netG s) (netG_buf s) (fst (randn e (rng s) b (nz hp)))"
  defines "bD1 \<equiv> D_bufs e (netD s) (netD_buf s) data"
  defines "g \<equiv> map2 (+) (grad_D e (netD s) (netD_buf s) data (replicate b (real_label hp)))
                        (grad_D e (netD s) bD1 x (replicate b (fake_label hp)))"
  shows "val (fst (dcgan_phase_D e hp data s)) = x"
    and "pull (fst (dcgan_phase_D e hp data s))
       = (\<lambda>c. (Some (G_vjp e (netG s) (netG_buf s) (fst (randn e (rng s) b (nz hp))) c), None))"
    and "fst (snd (dcgan_phase_D e hp data s))
       = loss_D e (netD s) (netD_buf s) data (replicate b (real_label hp))
         + loss_D e (netD s) bD1 x (replicate b (fake_label hp))"
    and "netD_grad (snd (snd (dcgan_phase_D e hp data s))) = Some g"
    and "netD (snd (snd (dcgan_phase_D e hp data s))) = fst (adam e (optimizerD s) (netD s) g)"
    and "optimizerD (snd (snd (dcgan_phase_D e hp data s))) = snd (adam e (optimizerD s) (netD s) g)"
    and "netD_buf (snd (snd (dcgan_phase_D e hp data s))) = D_bufs e (netD s) bD1 x"
    and "netG_buf (snd (snd (dcgan_phase_D e hp data s)))
       = G_bufs e (netG s) (netG_buf s) (fst (randn e (rng s) b (nz hp)))"
    and "netG (snd (snd (dcgan_phase_D e hp data s))) = netG s"
    and "optimizerG (snd (snd (dcgan_phase_D e hp data s))) = optimizerG s"
    and "netG_grad (snd (snd (dcgan_phase_D e hp data s))) = netG_grad s"
    and "rng (snd (snd (dcgan_phase_D e hp data s))) = snd (randn e (rng s) b (nz hp))"
    and "train_iterator (snd (snd (dcgan_phase_D e hp data s))) = train_iterator s"
proof -
  let ?s2 = "snd (snd (D_fake_pass e hp (length data) (snd (D_real_pass e hp data s))))"
  have g2: "netD_grad ?s2 = Some g"
    by (simp add: D_fake_pass_fields D_real_pass_fields accumulate_simps g_def b_def x_def bD1_def)
  have st: "snd (snd (dcgan_phase_D e hp data s)) = optimizerD_step e ?s2"
    by (simp add: dcgan_phase_D_def Let_def case_prod_beta)
  show "val (fst (dcgan_phase_D e hp data s)) = x"
    by (simp add: dcgan_phase_D_def Let_def case_prod_beta D_fake_pass_fields D_real_pass_fields
        x_def b_def)
  show "pull (fst (dcgan_phase_D e hp data s))
       = (\<lambda>c. (Some (G_vjp e (netG s) (netG_buf s) (fst (randn e (rng s) b (nz hp))) c), None))"
    by (simp add: dcgan_phase_D_def Let_def case_prod_beta D_fake_pass_fields D_real_pass_fields
        b_def)
  show "fst (snd (dcgan_phase_D e hp data s))
       = loss_D e (netD s) (netD_buf s) data (replicate b (real_label hp))
         + loss_D e (netD s) bD1 x (replicate b (fake_label hp))"
    by (simp add: dcgan_phase_D_def Let_def case_prod_beta D_fake_pass_fields D_real_pass_fields
        x_def b_def bD1_def)
  show "netD_grad (snd (snd (dcgan_phase_D e hp data s))) = Some g"
    unfolding st using g2 by (simp add: optimizerD_step_frame)
  show "netD (snd (snd (dcgan_phase_D e hp data s))) = fst (adam e (optimizerD s) (netD s) g)"
    unfolding st by (simp add: optimizerD_step_Some [OF g2] D_fake_pass_fields D_real_pass_fields)
  show "optimizerD (snd (snd (dcgan_phase_D e hp data s))) = snd (adam e (optimizerD s) (netD s) g)"
    unfolding st by (simp add: optimizerD_step_Some [OF g2] D_fake_pass_fields D_real_pass_fields)
  show "netD_buf (snd (snd (dcgan_phase_D e hp data s))) = D_bufs e (netD s) bD1 x"
    unfolding st
    by (simp add: optimizerD_step_frame D_fake_pass_fields D_real_pass_fields x_def b_def bD1_def)
  show "netG_buf (snd (snd (dcgan_phase_D e hp data s)))
       = G_bufs e (netG s) (netG_buf s) (fst (randn e (rng s) b (nz hp)))"
    unfolding st
    by (simp add: optimizerD_step_frame D_fake_pass_fields D_real_pass_fields b_def)
  show "netG (snd (snd (dcgan_phase_D e hp data s))) = netG s"
    unfolding st by (simp add: optimizerD_step_frame D_fake_pass_fields D_real_pass_fields)
  show "optimizerG (snd (snd (dcgan_phase_D e hp data s))) = optimizerG s"
    unfolding st by (simp add: optimizerD_step_frame D_fake_pass_fields D_real_pass_fields)
  show "netG_grad (snd (snd (dcgan_phase_D e hp data s))) = netG_grad s"
    unfolding st by (simp add: optimizerD_step_frame D_fake_pass_fields D_real_pass_fields)
  show "rng (snd (snd (dcgan_phase_D e hp data s))) = snd (randn e (rng s) b (nz hp))"
    unfolding st
    by (simp add: optimizerD_step_frame D_fake_pass_fields D_real_pass_fields b_def)
  show "train_iterator (snd (snd (dcgan_phase_D e hp data s))) = train_iterator s"
    unfolding st by (simp add: optimizerD_step_frame D_fake_pass_fields D_real_pass_fields)
qed

declare cycle_next.simps [code]

declare nlzl_train.simps [code]

section \<open>Gradient flow and order of the two phases\<close>

text \<open>
  C1.  In a training step of either script, let the discriminator's pass on the real
  batch lead to state \<open>s1\<close>, its pass on the detached fake batch to \<open>s2\<close>, and the
  generator's update, run on the same fake batch after the discriminator's optimizer
  step, to \<open>s3\<close>.  The loss of the detached pass has no path to the generator's
  parameters and its backward pass leaves the generator's gradient as it was.  The
  generator's update sets the generator's gradient to the gradient of the
  discriminator's loss on the attached fake batch, and leaves the discriminator's
  parameters and the state of its optimizer as the discriminator's step left them.
\<close>

theorem detachment_invariant:
  assumes "D_real_pass e hp data s = (errD_real, s1)"
      and "D_fake_pass e hp (length data) s1 = (fake, errD_fake, s2)"
      and "phase_G e hp (length data) fake (optimizerD_step e s2) = (errG, s3)"
  shows "fst (dcgan_phase_D e hp data s) = fake
       \<and> snd (snd (dcgan_phase_D e hp data s)) = optimizerD_step e s2
       \<and> fst (nlzl_phase_D e hp data s) = fake
       \<and> snd (snd (nlzl_phase_D e hp data s)) = optimizerD_step e s2
       \<and> fst (pull errD_fake 1) = None
       \<and> netG_grad s2 = netG_grad s1
       \<and> netG_grad s3 = Some (grad_G e (netG s) (netG_buf s) (fst (randn e (rng s) (length data) (nz hp)))
                                (netD (optimizerD_step e s2)) (netD_buf s2)
                                (replicate (length data) (real_label hp)))
       \<and> netD s3 = netD (optimizerD_step e s2)
       \<and> optimizerD s3 = optimizerD (optimizerD_step e s2)"
proof -
  have s1: "s1 = snd (D_real_pass e hp data s)"
    using assms(1) by simp
  have f: "fake = fst (D_fake_pass e hp (length data) s1)"
    and l: "errD_fake = fst (snd (D_fake_pass e hp (length data) s1))"
    and s2: "s2 = snd (snd (D_fake_pass e hp (length data) s1))"
    using assms(2) by simp_all
  have s3: "s3 = snd (phase_G e hp (length data) fake (optimizerD_step e s2))"
    using assms(3) by simp
  have a: "fst (dcgan_phase_D e hp data s) = fake"
    "snd (snd (dcgan_phase_D e hp data s)) = optimizerD_step e s2"
    unfolding f s2 s1 by (simp_all add: dcgan_phase_D_def Let_def case_prod_beta)
  have b: "fst (nlzl_phase_D e hp data s) = fake"
    "snd (snd (nlzl_phase_D e hp data s)) = optimizerD_step e s2"
    using a by (simp_all add: nlzl_phase_D_eq)
  have c: "fst (pull errD_fake 1) = None"
    unfolding l by (simp add: D_fake_pass_fields)
  have d: "netG_grad s2 = netG_grad s1"
    unfolding s2 by (simp add: D_fake_pass_fields)
  have "netG_grad s3 = Some (grad_G e (netG s1) (netG_buf s1) (fst (randn e (rng s1) (length data) (nz hp)))
                                (netD (optimizerD_step e s2)) (netD_buf (optimizerD_step e s2))
                                (replicate (length data) (real_label hp)))"
    unfolding s3 f by (simp add: phase_G_fields D_fake_pass_fields grad_G_def)
  then have g: "netG_grad s3 = Some (grad_G e (netG s) (netG_buf s) (fst (randn e (rng s) (length data) (nz hp)))
                                (netD (optimizerD_step e s2)) (netD_buf s2)
                                (replicate (length data) (real_label hp)))"
    unfolding s1 by (simp add: D_real_pass_fields optimizerD_step_frame)
  have h: "netD s3 = netD (optimizerD_step e s2)" "optimizerD s3 = optimizerD (optimizerD_step e s2)"
    unfolding s3 by (simp_all add: phase_G_fields)
  show ?thesis
    using a b c d g h by simp
qed

lemmas toy_defs = toy_s1_def toy_s2_def toy_s3_def toy_fake_def toy_state_def toy_env_def
  toy_params_def cifar_env_def init_state_def

lemmas step_defs = D_real_pass_def D_fake_pass_def phase_G_def dcgan_phase_D_def nlzl_phase_D_def
  netD_call_def netG_call_def criterion_def backward_def leaf_def detach_def
  optimizerD_step_def optimizerG_step_def accumulate_def Let_def

theorem detachment_invariant_witness:
  "netG_grad toy_s1 = Some [7] \<and> netG_grad toy_s2 = Some [7]
   \<and> netG_grad toy_s3 = Some [1] \<and> netD toy_s3 = netD (optimizerD_step toy_env toy_s2)
   \<and> netD toy_s3 = [1]"
proof -
  have a: "D_real_pass toy_env toy_params [[1, 2]] toy_state
      = (fst (D_real_pass toy_env toy_params [[1, 2]] toy_state), toy_s1)"
    by (simp add: toy_s1_def)
  have b: "D_fake_pass toy_env toy_params (length [[1, 2 :: real]]) toy_s1
      = (toy_fake, fst (snd (D_fake_pass toy_env toy_params 1 toy_s1)), toy_s2)"
    by (simp add: toy_s2_def toy_fake_def)
  have c: "phase_G toy_env toy_params (length [[1, 2 :: real]]) toy_fake (optimizerD_step toy_env toy_s2)
      = (fst (phase_G toy_env toy_params 1 toy_fake (optimizerD_step toy_env toy_s2)), toy_s3)"
    by (simp add: toy_s3_def)
  have d: "netG_grad toy_s1 = Some [7]"
    by (simp add: toy_defs step_defs)
  have e: "netD (optimizerD_step toy_env toy_s2) = [1]"
    by (simp add: toy_defs step_defs)
  have f: "grad_G toy_env (netG toy_state) (netG_buf toy_state)
             (fst (randn toy_env (rng toy_state) (length [[1, 2 :: real]]) (nz toy_params)))
             (netD (optimizerD_step toy_env toy_s2)) (netD_buf toy_s2)
             (replicate (length [[1, 2 :: real]]) (real_label toy_params)) = [1]"
    by (simp add: e) (simp add: toy_defs grad_G_def numeral_2_eq_2)
  show ?thesis
    using detachment_invariant [OF a b c] d e f by simp
qed

text \<open>
  C2.  The discriminator's update of either script, with the labels 0.9 and 0: the
  gradient the optimizer sees is the sum of the gradient on the real batch against
  0.9 and the gradient on the fresh, detached fake batch against 0, both taken at the
  parameters the step started with (no optimizer step in between) and whatever the
  gradient was before (it is zeroed first); the optimizer steps once on that sum; the
  recorded loss is the sum of the two losses; and the running statistics the fake
  pass sees are the ones the real pass left, so the real batch comes first.
\<close>

theorem phase_D_protocol:
  assumes "real_label hp = 9 / 10" and "fake_label hp = 0"
      and "dcgan_phase_D e hp data s = (fake, errD, s')"
  shows "nlzl_phase_D e hp data s = (fake, errD, s')
       \<and> (let b = length data;
               x = G_net e (netG s) (netG_buf s) (fst (randn e (rng s) b (nz hp)));
               bD1 = D_bufs e (netD s) (netD_buf s) data;
               g_real = grad_D e (netD s) (netD_buf s) data (replicate b (9 / 10));
               g_fake = grad_D e (netD s) bD1 x (replicate b 0)
           in val fake = x
            \<and> errD = loss_D e (netD s) (netD_buf s) data (replicate b (9 / 10))
                     + loss_D e (netD s) bD1 x (replicate b 0)
            \<and> netD_grad s' = Some (map2 (+) g_real g_fake)
            \<and> (netD s', optimizerD s') = adam e (optimizerD s) (netD s) (map2 (+) g_real g_fake)
            \<and> netD_buf s' = D_bufs e (netD s) bD1 x
            \<and> netG s' = netG s \<and> optimizerG s' = optimizerG s \<and> netG_grad s' = netG_grad s)"
proof -
  have f: "fake = fst (dcgan_phase_D e hp data s)"
    and l: "errD = fst (snd (dcgan_phase_D e hp data s))"
    and s': "s' = snd (snd (dcgan_phase_D e hp data s))"
    using assms(3) by simp_all
  have n: "nlzl_phase_D e hp data s = (fake, errD, s')"
    using assms(3) by (simp add: nlzl_phase_D_eq)
  have c: "val fake = G_net e (netG s) (netG_buf s) (fst (randn e (rng s) (length data) (nz hp)))
      \<and> errD = loss_D e (netD s) (netD_buf s) data (replicate (length data) (real_label hp))
          + loss_D e (netD s) (D_bufs e (netD s) (netD_buf s) data)
              (G_net e (netG s) (netG_buf s) (fst (randn e (rng s) (length data) (nz hp))))
              (replicate (length data) (fake_label hp))
      \<and> netD_buf s' = D_bufs e (netD s) (D_bufs e (netD s) (netD_buf s) data)
              (G_net e (netG s) (netG_buf s) (fst (randn e (rng s) (length data) (nz hp))))
      \<and> netG s' = netG s \<and> optimizerG s' = optimizerG s \<and> netG_grad s' = netG_grad s"
    unfolding f l s' by (simp add: dcgan_phase_D_fields)
  have g: "netD_grad s' = Some (map2 (+)
        (grad_D e (netD s) (netD_buf s) data (replicate (length data) (real_label hp)))
        (grad_D e (netD s) (D_bufs e (netD s) (netD_buf s) data)
              (G_net e (netG s) (netG_buf s) (fst (randn e (rng s) (length data) (nz hp))))
              (replicate (length data) (fake_label hp))))"
    unfolding s' by (simp add: dcgan_phase_D_fields)
  have a: "(netD s', optimizerD s') = adam e (optimizerD s) (netD s) (map2 (+)
        (grad_D e (netD s) (netD_buf s) data (replicate (length data) (real_label hp)))
        (grad_D e (netD s) (D_bufs e (netD s) (netD_buf s) data)
              (G_net e (netG s) (netG_buf s) (fst (randn e (rng s) (length data) (nz hp))))
              (replicate (length data) (fake_label hp))))"
    unfolding s' by (simp add: dcgan_phase_D_fields)
  show ?thesis
    using n c g a unfolding assms(1) assms(2) Let_def by blast
qed

theorem phase_D_protocol_witness:
  "real_label dcgan_params = 9 / 10 \<and> fake_label dcgan_params = 0
   \<and> real_label nlzl_params = 9 / 10 \<and> fake_label nlzl_params = 0
   \<and> nlzl_phase_D toy_env toy_params [[1, 2]] toy_state = dcgan_phase_D toy_env toy_params [[1, 2]] toy_state
   \<and> fst (snd (dcgan_phase_D toy_env toy_params [[1, 2]] toy_state)) = 21 / 10
   \<and> netD_grad (snd (snd (dcgan_phase_D toy_env toy_params [[1, 2]] toy_state))) = Some [2]
   \<and> netD (snd (snd (dcgan_phase_D toy_env toy_params [[1, 2]] toy_state))) = [1]
   \<and> netD_buf (snd (snd (dcgan_phase_D toy_env toy_params [[1, 2]] toy_state))) = [10]"
proof -
  have a: "real_label toy_params = 9 / 10" "fake_label toy_params = 0"
    by (simp_all add: toy_params_def)
  have b: "dcgan_phase_D toy_env toy_params [[1, 2]] toy_state
      = (fst (dcgan_phase_D toy_env toy_params [[1, 2]] toy_state),
         fst (snd (dcgan_phase_D toy_env toy_params [[1, 2]] toy_state)),
         snd (snd (dcgan_phase_D toy_env toy_params [[1, 2]] toy_state)))"
    by simp
  have c: "real_label dcgan_params = 9 / 10 \<and> fake_label dcgan_params = 0
      \<and> real_label nlzl_params = 9 / 10 \<and> fake_label nlzl_params = 0"
    by (simp add: dcgan_params_def nlzl_params_def)
  show ?thesis
    using phase_D_protocol [OF a b] c
    by (simp add: Let_def) (simp add: toy_defs loss_D_def grad_D_def numeral_2_eq_2)
qed

lemma phase_G_on_fake:
  assumes "pull fake = (\<lambda>c. (Some (G_vjp e pG bG z c), None))" and "val fake = G_net e pG bG z"
  shows "netG_grad (snd (phase_G e hp b fake t))
       = Some (grad_G e pG bG z (netD t) (netD_buf t) (replicate b (real_label hp)))"
    and "netG (snd (phase_G e hp b fake t))
       = fst (adam e (optimizerG t) (netG t) (grad_G e pG bG z (netD t) (netD_buf t) (replicate b (real_label hp))))"
    and "optimizerG (snd (phase_G e hp b fake t))
       = snd (adam e (optimizerG t) (netG t) (grad_G e pG bG z (netD t) (netD_buf t) (replicate b (real_label hp))))"
proof -
  show g: "netG_grad (snd (phase_G e hp b fake t))
       = Some (grad_G e pG bG z (netD t) (netD_buf t) (replicate b (real_label hp)))"
    by (simp add: phase_G_fields assms grad_G_def)
  show "netG (snd (phase_G e hp b fake t))
       = fst (adam e (optimizerG t) (netG t) (grad_G e pG bG z (netD t) (netD_buf t) (replicate b (real_label hp))))"
    by (simp add: phase_G_pre_step(2) g)
  show "optimizerG (snd (phase_G e hp b fake t))
       = snd (adam e (optimizerG t) (netG t) (grad_G e pG bG z (netD t) (netD_buf t) (replicate b (real_label hp))))"
    by (simp add: phase_G_pre_step(1) g)
qed

lemma step_after_phase_D:
  assumes "dcgan_phase_D e hp data s = (fake, errD, sD)"
  defines "z \<equiv> fst (randn e (rng s) (length data) (nz hp))"
  defines "lr \<equiv> replicate (length data) (real_label hp)"
  defines "sG \<equiv> snd (phase_G e hp (length data) fake sD)"
  shows "netG sD = netG s" and "optimizerG sD = optimizerG s"
    and "val fake = G_net e (netG s) (netG_buf s) z"
    and "rng sD = snd (randn e (rng s) (length data) (nz hp))"
    and "fst (phase_G e hp (length data) fake sD) = loss_D e (netD sD) (netD_buf sD) (val fake) lr"
    and "netD sG = netD sD" and "optimizerD sG = optimizerD sD"
    and "netG sG = fst (adam e (optimizerG s) (netG s) (grad_G e (netG s) (netG_buf s) z (netD sD) (netD_buf sD) lr))"
    and "optimizerG sG = snd (adam e (optimizerG s) (netG s) (grad_G e (netG s) (netG_buf s) z (netD sD) (netD_buf sD) lr))"
    and "rng sG = snd (randn e (rng s) (length data) (nz hp))"
    and "G_losses sG = G_losses s" and "D_losses sG = D_losses s" and "iters sG = iters s"
    and "img_list sG = img_list s" and "train_iterator sG = train_iterator s"
proof -
  have f: "fake = fst (dcgan_phase_D e hp data s)"
    and sD: "sD = snd (snd (dcgan_phase_D e hp data s))"
    using assms(1) by simp_all
  have p: "pull fake = (\<lambda>c. (Some (G_vjp e (netG s) (netG_buf s) z c), None))"
    unfolding f z_def by (simp add: dcgan_phase_D_fields)
  show v: "val fake = G_net e (netG s) (netG_buf s) z"
    unfolding f z_def by (simp add: dcgan_phase_D_fields)
  show a: "netG sD = netG s" and b: "optimizerG sD = optimizerG s"
    and r: "rng sD = snd (randn e (rng s) (length data) (nz hp))"
    unfolding sD by (simp_all add: dcgan_phase_D_fields)
  show "fst (phase_G e hp (length data) fake sD) = loss_D e (netD sD) (netD_buf sD) (val fake) lr"
    unfolding lr_def by (simp add: phase_G_fields)
  show "netD sG = netD sD" and "optimizerD sG = optimizerD sD"
    unfolding sG_def by (simp_all add: phase_G_fields)
  show "netG sG = fst (adam e (optimizerG s) (netG s) (grad_G e (netG s) (netG_buf s) z (netD sD) (netD_buf sD) lr))"
    unfolding sG_def lr_def using phase_G_on_fake(2) [OF p v, of hp "length data" sD] a b by simp
  show "optimizerG sG = snd (adam e (optimizerG s) (netG s) (grad_G e (netG s) (netG_buf s) z (netD sD) (netD_buf sD) lr))"
    unfolding sG_def lr_def using phase_G_on_fake(3) [OF p v, of hp "length data" sD] a b by simp
  show "rng sG = snd (randn e (rng s) (length data) (nz hp))"
    unfolding sG_def using r by (simp add: phase_G_fields)
  show "G_losses sG = G_losses s" and "D_losses sG = D_losses s" and "iters sG = iters s"
    and "img_list sG = img_list s"
    unfolding sG_def sD by (simp_all add: phase_G_log dcgan_phase_D_log)
  show "train_iterator sG = train_iterator s"
    unfolding sG_def sD by (simp add: phase_G_fields dcgan_phase_D_fields)
qed

text \<open>
  C3.  A whole step of either script, started in \<open>s\<close> (in \<^verbatim>\<open>DCGAN.py\<close> after
  \<^verbatim>\<open>next(train_iterator)\<close> has produced the batch), with \<open>sD\<close> the state after the
  discriminator's update.  The generator's parameters and optimizer are untouched
  while the discriminator is updated; the generator's update then differentiates the
  loss of the updated discriminator \<open>netD sD\<close> on the fake batch that was generated
  during the discriminator's update (one draw of noise per step, the generator's
  parameters of the start of the step); and the discriminator's parameters and
  optimizer at the end of the step are those of \<open>sD\<close>.
\<close>

theorem phase_D_completes_before_phase_G:
  assumes "nlzl_phase_D e hp data s = (fake, errD, sD)"
      and "cycle_next e (train_iterator t) (rng t) = Some (data, rest, r)"
      and "s = t\<lparr>rng := r, train_iterator := rest\<rparr>"
  shows "dcgan_phase_D e hp data s = (fake, errD, sD)
       \<and> netG sD = netG s \<and> optimizerG sD = optimizerG s
       \<and> val fake = G_net e (netG s) (netG_buf s) (fst (randn e (rng s) (length data) (nz hp)))
       \<and> (let gG = grad_G e (netG s) (netG_buf s) (fst (randn e (rng s) (length data) (nz hp)))
                     (netD sD) (netD_buf sD) (replicate (length data) (real_label hp));
               errG = loss_D e (netD sD) (netD_buf sD) (val fake) (replicate (length data) (real_label hp));
               s' = nlzl_step e hp fixed_noise data s
           in netD s' = netD sD \<and> optimizerD s' = optimizerD sD
            \<and> (netG s', optimizerG s') = adam e (optimizerG s) (netG s) gG
            \<and> G_losses s' = G_losses s @ [errG] \<and> D_losses s' = D_losses s @ [errD]
            \<and> rng s' = snd (randn e (rng s) (length data) (nz hp))
            \<and> (\<exists>t'. dcgan_step e hp fixed_noise epoch i t = Some t'
                 \<and> netD t' = netD sD \<and> optimizerD t' = optimizerD sD
                 \<and> (netG t', optimizerG t') = adam e (optimizerG s) (netG s) gG
                 \<and> G_losses t' = G_losses t @ [errG] \<and> D_losses t' = D_losses t @ [errD]
                 \<and> rng t' = snd (randn e r (length data) (nz hp))))"
proof -
  have d: "dcgan_phase_D e hp data s = (fake, errD, sD)"
    using assms(1) by (simp add: nlzl_phase_D_eq)
  note st = step_after_phase_D [OF d]
  have gl: "G_losses s = G_losses t" "D_losses s = D_losses t" "rng s = r"
    using assms(3) by simp_all
  have n: "netD (nlzl_step e hp fixed_noise data s) = netD sD"
    "optimizerD (nlzl_step e hp fixed_noise data s) = optimizerD sD"
    "netG (nlzl_step e hp fixed_noise data s) = netG (snd (phase_G e hp (length data) fake sD))"
    "optimizerG (nlzl_step e hp fixed_noise data s) = optimizerG (snd (phase_G e hp (length data) fake sD))"
    "G_losses (nlzl_step e hp fixed_noise data s) = G_losses s @ [fst (phase_G e hp (length data) fake sD)]"
    "D_losses (nlzl_step e hp fixed_noise data s) = D_losses s @ [errD]"
    "rng (nlzl_step e hp fixed_noise data s) = rng (snd (phase_G e hp (length data) fake sD))"
    using st(6,7,11,12)
    by (simp_all add: nlzl_step_def assms(1) Let_def case_prod_beta netG_call_frame)
  obtain t' where t': "dcgan_step e hp fixed_noise epoch i t = Some t'"
    and m: "netD t' = netD sD" "optimizerD t' = optimizerD sD"
    "netG t' = netG (snd (phase_G e hp (length data) fake sD))"
    "optimizerG t' = optimizerG (snd (phase_G e hp (length data) fake sD))"
    "G_losses t' = G_losses s @ [fst (phase_G e hp (length data) fake sD)]"
    "D_losses t' = D_losses s @ [errD]"
    "rng t' = rng (snd (phase_G e hp (length data) fake sD))"
    using st(6,7,11,12) d
    by (simp add: dcgan_step_def assms(2) assms(3) [symmetric] Let_def case_prod_beta
        dcgan_snapshot_def netG_call_frame)
  show ?thesis
    unfolding Let_def
    using d st(1-4) n m t' st(5) st(8-10) gl
    by simp
qed

theorem phase_D_completes_before_phase_G_witness:
  "cycle_next toy_env (train_iterator toy_state) (rng toy_state) = Some ([[1, 2]], [[[3, 4]]], 1)
   \<and> netD (snd (snd (nlzl_phase_D toy_env toy_params [[1, 2]] toy_begin))) = [1]
   \<and> netD (nlzl_step toy_env toy_params [[1]] [[1, 2]] toy_begin) = [1]
   \<and> rng (nlzl_step toy_env toy_params [[1]] [[1, 2]] toy_begin) = 2
   \<and> (\<exists>t'. dcgan_step toy_env toy_params [[1]] 0 0 toy_state = Some t' \<and> netD t' = [1] \<and> rng t' = 2)"
proof -
  have a: "nlzl_phase_D toy_env toy_params [[1, 2]] toy_begin
      = (fst (nlzl_phase_D toy_env toy_params [[1, 2]] toy_begin),
         fst (snd (nlzl_phase_D toy_env toy_params [[1, 2]] toy_begin)),
         snd (snd (nlzl_phase_D toy_env toy_params [[1, 2]] toy_begin)))"
    by simp
  have b: "cycle_next toy_env (train_iterator toy_state) (rng toy_state) = Some ([[1, 2]], [[[3, 4]]], 1)"
    by (subst cycle_next.simps, simp add: toy_defs, subst cycle_next.simps, simp)
  have c: "toy_begin = toy_state\<lparr>rng := 1, train_iterator := [[[3, 4]]]\<rparr>"
    by (simp add: toy_begin_def)
  have d: "netD (snd (snd (nlzl_phase_D toy_env toy_params [[1, 2]] toy_begin))) = [1]"
    by (simp add: toy_begin_def toy_defs step_defs case_prod_beta)
  have e: "snd (randn toy_env 1 (length [[1, 2 :: real]]) (nz toy_params)) = 2"
    "rng toy_begin = 1"
    by (simp_all add: toy_begin_def toy_defs)
  show ?thesis
    using phase_D_completes_before_phase_G [OF a b c, of "[[1]]" 0 0] b d e
    by (auto simp add: Let_def)
qed

section \<open>Budget of the training loops\<close>

lemma loader_ok_nonempty:
  assumes "loader_ok e" and "0 < loader_len e"
  shows "fst (loader_iter e r) \<noteq> []"
proof -
  have "length (fst (loader_iter e r)) = loader_len e"
    using assms(1) by (simp add: loader_ok_def)
  with assms(2) show ?thesis by auto
qed

text \<open>
  C6.  With a budget of zero steps (\<^verbatim>\<open>n_epochs = 0\<close> in \<^verbatim>\<open>DCGAN.py\<close>, \<^verbatim>\<open>step = 0\<close> in
  \<^verbatim>\<open>nlzl16_generative_model.py\<close>) the training loop returns and leaves the state as it
  found it; in particular the parameters of the generator and of the discriminator
  are the initial ones.
\<close>

theorem zero_budget_keeps_parameters:
  "(n_epochs hp = 0 \<longrightarrow>
      (\<exists>s'. dcgan_train e hp fixed_noise s = Some s' \<and> s' = s \<and> netG s' = netG s \<and> netD s' = netD s))
   \<and> (step hp = 0 \<longrightarrow>
      (\<exists>s'. nlzl_train e hp fixed_noise s = Some s' \<and> s' = s \<and> netG s' = netG s \<and> netD s' = netD s))"
proof -
  have "step hp = 0 \<Longrightarrow> nlzl_train e hp fixed_noise s = Some s"
    by (subst nlzl_train.simps) simp
  then show ?thesis
    by (simp add: dcgan_train_def)
qed

theorem zero_budget_keeps_parameters_witness:
  "(\<exists>s'. dcgan_train (cifar_env 128) (dcgan_params\<lparr>n_epochs := 0\<rparr>) [[1]]
            (init_state [1] [2] [3] [4] [5] [6] 0) = Some s'
        \<and> netG s' = [1] \<and> netD s' = [3])
   \<and> (\<exists>s'. nlzl_train (cifar_env 64) (nlzl_params\<lparr>step := 0\<rparr>) [[1]]
            (init_state [1] [2] [3] [4] [5] [6] 0) = Some s'
        \<and> netG s' = [1] \<and> netD s' = [3])"
  using zero_budget_keeps_parameters [of "dcgan_params\<lparr>n_epochs := 0\<rparr>" "cifar_env 128" "[[1]]"
      "init_state [1] [2] [3] [4] [5] [6] 0"]
    zero_budget_keeps_parameters [of "nlzl_params\<lparr>step := 0\<rparr>" "cifar_env 64" "[[1]]"
      "init_state [1] [2] [3] [4] [5] [6] 0"]
  by (simp add: init_state_def)

text \<open>
  C8.  Over a loader that has at least one batch, both training loops return, after
  exactly their budget of steps: \<^verbatim>\<open>n_epochs\<close> times 1000 in \<^verbatim>\<open>DCGAN.py\<close>, and the steps
  that \<^verbatim>\<open>iters\<close> still lacks to \<^verbatim>\<open>params['step']\<close> in \<^verbatim>\<open>nlzl16_generative_model.py\<close>.
  Nothing stops a loop earlier, and each step appends one entry to \<^verbatim>\<open>G_losses\<close> and one
  to \<^verbatim>\<open>D_losses\<close>.
\<close>

theorem training_runs_exactly_its_budget:
  assumes "loader_ok e" and "0 < loader_len e"
  shows "(\<exists>s'. dcgan_train e hp fixed_noise s = Some s'
          \<and> iters s' = iters s + nat (n_epochs hp) * 1000
          \<and> length (G_losses s') = length (G_losses s) + nat (n_epochs hp) * 1000
          \<and> length (D_losses s') = length (D_losses s) + nat (n_epochs hp) * 1000)
       \<and> (\<exists>s'. nlzl_train e hp fixed_noise s = Some s'
          \<and> int (iters s') = max (step hp) (int (iters s))
          \<and> length (G_losses s') = length (G_losses s) + nat (step hp - int (iters s))
          \<and> length (D_losses s') = length (D_losses s) + nat (step hp - int (iters s)))"
proof -
  have ne: "\<And>r. fst (loader_iter e r) \<noteq> []"
    using loader_ok_nonempty [OF assms(1,2)] .
  show ?thesis
    using dcgan_train_log [OF ne, of hp fixed_noise s] nlzl_train_log [OF ne, of hp fixed_noise s]
    by blast
qed

theorem training_runs_exactly_its_budget_witness:
  "(\<exists>s'. dcgan_train (cifar_env 128) dcgan_params [[1]] (init_state [1] [2] [3] [4] [5] [6] 0) = Some s'
      \<and> iters s' = 50000 \<and> length (G_losses s') = 50000 \<and> length (D_losses s') = 50000)
   \<and> (\<exists>s'. nlzl_train (cifar_env 64) nlzl_params [[1]] (init_state [1] [2] [3] [4] [5] [6] 0) = Some s'
      \<and> int (iters s') = 50000 \<and> length (G_losses s') = 50000 \<and> length (D_losses s') = 50000)"
proof -
  have a: "loader_ok (cifar_env 128)" "0 < loader_len (cifar_env 128)"
    and b: "loader_ok (cifar_env 64)" "0 < loader_len (cifar_env 64)"
    by (simp_all add: loader_ok_def cifar_env_def DataLoader_len_def)
  show ?thesis
    using training_runs_exactly_its_budget [OF a, of dcgan_params "[[1]]" "init_state [1] [2] [3] [4] [5] [6] 0"]
      training_runs_exactly_its_budget [OF b, of nlzl_params "[[1]]" "init_state [1] [2] [3] [4] [5] [6] 0"]
    by (simp add: init_state_def dcgan_params_def nlzl_params_def)
qed

text \<open>
  C10.  In \<^verbatim>\<open>DCGAN.py\<close>, \<^verbatim>\<open>img_list\<close> is empty before the loop and the only statement that
  appends to it is the snapshot guarded by \<^verbatim>\<open>epoch + 1 == n_epochs\<close> and
  \<^verbatim>\<open>i == len(train_loader) - 1\<close>.  Over a loader with at least one batch the loop
  returns, and \<^verbatim>\<open>img_list[-1]\<close> then yields a picture exactly when there is at least one
  epoch and \<^verbatim>\<open>len(train_loader)\<close> is at most the bound 1000 of the inner loop; for the
  configured data (50000 images in batches of 128, 391 batches, 50 epochs) it does.
\<close>

theorem dcgan_img_list_last:
  assumes "loader_ok e" and "0 < loader_len e" and "img_list s = []"
  shows "\<exists>s'. dcgan_train e hp fixed_noise s = Some s'
          \<and> ((\<exists>g. py_last (img_list s') = Inr g) \<longleftrightarrow> 1 \<le> n_epochs hp \<and> loader_len e \<le> 1000)"
proof -
  have ne: "\<And>r. fst (loader_iter e r) \<noteq> []"
    using loader_ok_nonempty [OF assms(1,2)] .
  obtain s' where run: "dcgan_train e hp fixed_noise s = Some s'"
    and len: "length (img_list s') = length (img_list s)
         + (if 1 \<le> n_epochs hp \<and> 0 < loader_len e \<and> loader_len e \<le> 1000 then 1 else 0)"
    using dcgan_train_log [OF ne, of hp fixed_noise s] by blast
  have "img_list s' \<noteq> [] \<longleftrightarrow> 1 \<le> n_epochs hp \<and> loader_len e \<le> 1000"
    using len assms(2,3) by (auto split: if_splits)
  moreover have "(\<exists>g. py_last (img_list s') = Inr g) \<longleftrightarrow> img_list s' \<noteq> []"
    by (simp add: py_last_def)
  ultimately have "(\<exists>g. py_last (img_list s') = Inr g) \<longleftrightarrow> 1 \<le> n_epochs hp \<and> loader_len e \<le> 1000"
    by blast
  with run show ?thesis by blast
qed

theorem dcgan_img_list_last_witness:
  "loader_len (cifar_env 128) = 391
   \<and> (\<exists>s' g. dcgan_train (cifar_env 128) dcgan_params [[1]] (init_state [1] [2] [3] [4] [5] [6] 0) = Some s'
        \<and> py_last (img_list s') = Inr g)"
proof -
  have a: "loader_ok (cifar_env 128)" "0 < loader_len (cifar_env 128)"
    "img_list (init_state [1] [2] [3] [4] [5] [6] 0) = []"
    by (simp_all add: loader_ok_def cifar_env_def DataLoader_len_def init_state_def)
  have b: "loader_len (cifar_env 128) = 391" "n_epochs dcgan_params = 50"
    by (simp_all add: cifar_env_def DataLoader_len_def dcgan_params_def)
  show ?thesis
    using dcgan_img_list_last [OF a, of dcgan_params "[[1]]"] b by auto
qed

section \<open>Shapes of the generators' outputs\<close>

lemma tanh_range: "- 1 \<le> tanh (v :: real) \<and> tanh v \<le> 1"
  using tanh_real_gt_neg1 [of v] tanh_real_lt_1 [of v] by simp

lemma Sequential_append:
  "Sequential w tr (ls @ ms) x =
     (case Sequential w tr ls x of Inl err \<Rightarrow> Inl err | Inr y \<Rightarrow> Sequential w tr ms y)"
  by (induction ls arbitrary: x) (auto split: sum.splits)

lemma one_value_per_channel: "2 \<le> h \<Longrightarrow> n * h * h \<noteq> (1::nat)"
  by auto

lemma block_shape:
  assumes "shape x = [n, cin, h, h]" and "st \<noteq> 0 \<and> h \<noteq> 0"
      and "conv_transpose_size k st p h = int h'" and "2 \<le> h'"
  shows "\<exists>y. Sequential w tr [ConvTranspose2d cin cout k st p, BatchNorm2d cout, ReLU] x = Inr y
           \<and> shape y = [n, cout, h', h']"
proof -
  have "n * h' * h' \<noteq> 1"
    using assms(4) by (rule one_value_per_channel)
  then show ?thesis
    using assms by (simp add: Let_def)
qed

lemma last_shape:
  assumes "shape x = [n, cin, h, h]" and "st \<noteq> 0 \<and> h \<noteq> 0"
      and "conv_transpose_size k st p h = int h'" and "1 \<le> h'"
  shows "\<exists>y. Sequential w tr [ConvTranspose2d cin cout k st p, Tanh] x = Inr y
           \<and> shape y = [n, cout, h', h']
           \<and> (\<forall>v \<in> set (elems y). - 1 \<le> v \<and> v \<le> 1)"
  using assms by (simp add: Let_def tanh_range)

lemma sizes:
  "conv_transpose_size 3 1 0 1 = int 3" "conv_transpose_size 3 2 1 3 = int 5"
  "conv_transpose_size 3 2 1 5 = int 9" "conv_transpose_size 3 2 1 9 = int 17"
  "conv_transpose_size 3 2 1 17 = int 33" "conv_transpose_size 4 2 2 17 = int 32"
  by (simp_all add: conv_transpose_size_def)

lemma dcgan_Generator_run:
  assumes "shape x = [b, 100, 1, 1]"
  shows "\<exists>y. Sequential w tr (dcgan_Generator 3 100 64) x = Inr y \<and> shape y = [b, 3, 33, 33]
           \<and> (\<forall>v \<in> set (elems y). - 1 \<le> v \<and> v \<le> 1)"
proof -
  obtain y1 where y1: "Sequential w tr [ConvTranspose2d 100 128 3 1 0, BatchNorm2d 128, ReLU] x = Inr y1"
      "shape y1 = [b, 128, 3, 3]"
    using block_shape [OF assms _ sizes(1), of w tr 128] by auto
  obtain y2 where y2: "Sequential w tr [ConvTranspose2d 128 128 3 2 1, BatchNorm2d 128, ReLU] y1 = Inr y2"
      "shape y2 = [b, 128, 5, 5]"
    using block_shape [OF y1(2) _ sizes(2), of w tr 128] by auto
  obtain y3 where y3: "Sequential w tr [ConvTranspose2d 128 128 3 2 1, BatchNorm2d 128, ReLU] y2 = Inr y3"
      "shape y3 = [b, 128, 9, 9]"
    using block_shape [OF y2(2) _ sizes(3), of w tr 128] by auto
  obtain y4 where y4: "Sequential w tr [ConvTranspose2d 128 64 3 2 1, BatchNorm2d 64, ReLU] y3 = Inr y4"
      "shape y4 = [b, 64, 17, 17]"
    using block_shape [OF y3(2) _ sizes(4), of w tr 64] by auto
  obtain y where y: "Sequential w tr [ConvTranspose2d 64 3 3 2 1, Tanh] y4 = Inr y"
      "shape y = [b, 3, 33, 33]" "\<forall>v \<in> set (elems y). - 1 \<le> v \<and> v \<le> 1"
    using last_shape [OF y4(2) _ sizes(5), of w tr 3] by auto
  have "dcgan_Generator 3 100 64 =
      [ConvTranspose2d 100 128 3 1 0, BatchNorm2d 128, ReLU]
      @ [ConvTranspose2d 128 128 3 2 1, BatchNorm2d 128, ReLU]
      @ [ConvTranspose2d 128 128 3 2 1, BatchNorm2d 128, ReLU]
      @ [ConvTranspose2d 128 64 3 2 1, BatchNorm2d 64, ReLU]
      @ [ConvTranspose2d 64 3 3 2 1, Tanh]"
    by (simp add: dcgan_Generator_def)
  then have "Sequential w tr (dcgan_Generator 3 100 64) x = Inr y"
    by (simp only: Sequential_append y1(1) y2(1) y3(1) y4(1) y(1) sum.case)
  with y(2,3) show ?thesis by blast
qed

text \<open>
  The generator of \<^verbatim>\<open>nlzl16_generative_model.py\<close> maps a latent batch of any size to
  images of 32 by 32 in three channels, with every element in the range of tanh.
\<close>

lemma nlzl_Generator_run:
  assumes "shape x = [b, 128, 1, 1]"
  shows "\<exists>y. Sequential w tr (nlzl_Generator nlzl_params) x = Inr y \<and> shape y = [b, 3, 32, 32]
           \<and> (\<forall>v \<in> set (elems y). - 1 \<le> v \<and> v \<le> 1)"
proof -
  obtain y1 where y1: "Sequential w tr [ConvTranspose2d 128 128 3 1 0, BatchNorm2d 128, ReLU] x = Inr y1"
      "shape y1 = [b, 128, 3, 3]"
    using block_shape [OF assms _ sizes(1), of w tr 128] by auto
  obtain y2 where y2: "Sequential w tr [ConvTranspose2d 128 128 3 2 1, BatchNorm2d 128, ReLU] y1 = Inr y2"
      "shape y2 = [b, 128, 5, 5]"
    using block_shape [OF y1(2) _ sizes(2), of w tr 128] by auto
  obtain y3 where y3: "Sequential w tr [ConvTranspose2d 128 128 3 2 1, BatchNorm2d 128, ReLU] y2 = Inr y3"
      "shape y3 = [b, 128, 9, 9]"
    using block_shape [OF y2(2) _ sizes(3), of w tr 128] by auto
  obtain y4 where y4: "Sequential w tr [ConvTranspose2d 128 128 3 2 1, BatchNorm2d 128, ReLU] y3 = Inr y4"
      "shape y4 = [b, 128, 17, 17]"
    using block_shape [OF y3(2) _ sizes(4), of w tr 128] by auto
  obtain y where y: "Sequential w tr [ConvTranspose2d 128 3 4 2 2, Tanh] y4 = Inr y"
      "shape y = [b, 3, 32, 32]" "\<forall>v \<in> set (elems y). - 1 \<le> v \<and> v \<le> 1"
    using last_shape [OF y4(2) _ sizes(6), of w tr 3] by auto
  have "nlzl_Generator nlzl_params =
      [ConvTranspose2d 128 128 3 1 0, BatchNorm2d 128, ReLU]
      @ [ConvTranspose2d 128 128 3 2 1, BatchNorm2d 128, ReLU]
      @ [ConvTranspose2d 128 128 3 2 1, BatchNorm2d 128, ReLU]
      @ [ConvTranspose2d 128 128 3 2 1, BatchNorm2d 128, ReLU]
      @ [ConvTranspose2d 128 3 4 2 2, Tanh]"
    by (simp add: nlzl_Generator_def nlzl_params_def numeral_3_eq_3)
  then have "Sequential w tr (nlzl_Generator nlzl_params) x = Inr y"
    by (simp only: Sequential_append y1(1) y2(1) y3(1) y4(1) y(1) sum.case)
  with y(2,3) show ?thesis by blast
qed

text \<open>
  C4.  The generator of \<^verbatim>\<open>DCGAN.py\<close>, as configured (\<^verbatim>\<open>nc = 3\<close>, \<^verbatim>\<open>nz = 100\<close>,
  \<^verbatim>\<open>ngf = 64\<close>) and in training mode as the script runs it, maps a latent batch of
  shape \<open>(b, 100, 1, 1)\<close> to a batch of shape \<open>(b, 3, 33, 33)\<close>: the five transposed
  convolutions take the spatial size through 3, 5, 9, 17 to 33, not to the 32 of
  \<^verbatim>\<open>params['dim']\<close> and of the other script.
\<close>

theorem dcgan_Generator_output_shape:
  "result_shape (Sequential w True
       (dcgan_Generator (nc dcgan_params) (nz dcgan_params) (ngf dcgan_params))
       \<lparr>shape = [b, 100, 1, 1], elems = xs\<rparr>) = Inr [b, 3, 33, 33]"
proof -
  have "dcgan_Generator (nc dcgan_params) (nz dcgan_params) (ngf dcgan_params) = dcgan_Generator 3 100 64"
    by (simp add: dcgan_params_def)
  moreover obtain y where "Sequential w True (dcgan_Generator 3 100 64) \<lparr>shape = [b, 100, 1, 1], elems = xs\<rparr> = Inr y"
    and "shape y = [b, 3, 33, 33]"
    using dcgan_Generator_run [of "\<lparr>shape = [b, 100, 1, 1], elems = xs\<rparr>" b w True] by auto
  ultimately show ?thesis
    by (simp add: result_shape_def)
qed

text \<open>
  The discriminator of \<^verbatim>\<open>DCGAN.py\<close> accepts images of 33 by 33 as it accepts the real
  images of 32 by 32, so the training loop runs on the generator's output.
\<close>

lemma dcgan_Discriminator_accepts_33:
  "result_shape (Sequential w True (dcgan_Discriminator 3 64)
       \<lparr>shape = [Suc b, 3, 33, 33], elems = xs\<rparr>) = Inr [Suc b, 1, 1, 1]"
  by (simp add: dcgan_Discriminator_def conv_size_def Let_def result_shape_def)

lemma dcgan_Discriminator_accepts_32:
  "result_shape (Sequential w True (dcgan_Discriminator 3 64)
       \<lparr>shape = [Suc b, 3, 32, 32], elems = xs\<rparr>) = Inr [Suc b, 1, 1, 1]"
  by (simp add: dcgan_Discriminator_def conv_size_def Let_def result_shape_def)
section \<open>The interpolation blocks on their inputs\<close>

lemma floor_sqrt_eq:
  assumes "k * k \<le> n" and "n < Suc k * Suc k"
  shows "floor_sqrt n = k"
proof -
  have kn: "k \<le> n"
  proof (cases k)
    case 0
    then show ?thesis by simp
  next
    case (Suc m)
    have "k \<le> k * k"
      using Suc by simp
    then show ?thesis
      using assms(1) by (rule order_trans)
  qed
  have low: "j * j \<le> n" if "j \<in> set [1..<Suc k]" for j
  proof -
    from that have "j \<le> k" by auto
    then have "j * j \<le> k * k" by (simp add: mult_le_mono)
    with assms(1) show ?thesis by simp
  qed
  have high: "\<not> j * j \<le> n" if "j \<in> set [Suc k..<Suc n]" for j
  proof -
    from that have "Suc k \<le> j" by auto
    then have "Suc k * Suc k \<le> j * j" by (intro mult_le_mono)
    with assms(2) show ?thesis by simp
  qed
  have "[1..<Suc n] = [1..<Suc k] @ [Suc k..<Suc n]"
    using kn by (metis Suc_le_mono le_add_diff_inverse upt_add_eq_append One_nat_def Suc_eq_plus1_left le_add1)
  then have "filter (\<lambda>j. j * j \<le> n) [1..<Suc n]
      = filter (\<lambda>j. j * j \<le> n) [1..<Suc k] @ filter (\<lambda>j. j * j \<le> n) [Suc k..<Suc n]"
    by simp
  also have "filter (\<lambda>j. j * j \<le> n) [1..<Suc k] = [1..<Suc k]"
    by (rule filter_True) (blast intro: low)
  also have "filter (\<lambda>j. j * j \<le> n) [Suc k..<Suc n] = []"
    by (rule filter_False) (blast dest: high)
  finally show ?thesis
    by (simp add: floor_sqrt_def)
qed

lemma floor_sqrt_values: "floor_sqrt 128 = 11" "floor_sqrt 64 = 8" "floor_sqrt 4 = 2"
  by (rule floor_sqrt_eq; simp)+

text \<open>
  With the configured batch size 64 and a noise of shape \<open>(64, 128, 1, 1)\<close> no
  statement of the block of \<^verbatim>\<open>nlzl16_generative_model.py\<close> raises, and the
  interpolated latents have the shape of the noise.
\<close>

lemma nlzl_lerp_z_shape:
  "\<exists>t. nlzl_lerp_z nlzl_params \<lparr>shape = [64, 128, 1, 1], elems = xs\<rparr> = Inr t
       \<and> shape t = [64, 128, 1, 1]"
proof -
  have "batch_size nlzl_params = 64"
    by (simp add: nlzl_params_def)
  then have c: "floor_sqrt (batch_size nlzl_params) = 8" "batch_size nlzl_params - 8 = 56"
    "batch_size nlzl_params = 64"
    by (simp_all add: floor_sqrt_values)
  show ?thesis
    unfolding nlzl_lerp_z_def c Let_def
    by (simp add: then_do_def slice0_def slice_from_def repeat_sizes_def linspace_def
        unsqueeze_def view_def broadcast_op_def scalar_minus_def Let_def floor_sqrt_values
        del: tile.simps expand.simps)
qed

text \<open>
  Whatever the hyperparameters, the block of \<^verbatim>\<open>DCGAN.py\<close> raises on a noise of four
  dimensions: the slice keeps the four dimensions and \<^verbatim>\<open>repeat\<close> gets two sizes.
\<close>

lemma dcgan_lerp_z_raises:
  "dcgan_lerp_z hp \<lparr>shape = [n, z, 1, 1], elems = xs\<rparr> = Inl RuntimeError"
proof -
  define c where "c = floor_sqrt (batch_size hp)"
  have "\<exists>top. slice0 0 c \<lparr>shape = [n, z, 1, 1], elems = xs\<rparr> = Inr top
      \<and> length (shape top) = 4"
    by (simp add: slice0_def Let_def)
  then obtain top where t: "slice0 0 c \<lparr>shape = [n, z, 1, 1], elems = xs\<rparr> = Inr top"
    and s: "length (shape top) = 4"
    by blast
  have r: "repeat_sizes [c, 1] top = Inl RuntimeError"
    by (simp add: repeat_sizes_def s)
  show ?thesis
    unfolding dcgan_lerp_z_def Let_def c_def [symmetric]
    by (simp only: t then_do_def sum.case r)
qed

text \<open>
  C5.  The interpolation block of \<^verbatim>\<open>DCGAN.py\<close> on the noise it is given, of shape
  \<open>(10000, 100, 1, 1)\<close>, with the configured batch size 128: \<^verbatim>\<open>col_size\<close> is 11, the
  slice \<^verbatim>\<open>sample_noise[0:11]\<close> has four dimensions, and \<^verbatim>\<open>repeat(col_size, 1)\<close> with two
  sizes raises before any latent is interpolated or decoded.
\<close>

theorem dcgan_interpolation_raises:
  "dcgan_interpolation w dcgan_params \<lparr>shape = [10000, 100, 1, 1], elems = xs\<rparr> = Inl RuntimeError"
proof -
  have "batch_size dcgan_params = 128"
    by (simp add: dcgan_params_def)
  then have c: "floor_sqrt (batch_size dcgan_params) = 11"
    by (simp only: floor_sqrt_values)
  have "\<exists>top. slice0 0 11 \<lparr>shape = [10000, 100, 1, 1], elems = xs\<rparr> = Inr top
      \<and> shape top = [11, 100, 1, 1]"
    by (simp add: slice0_def Let_def)
  then obtain top where t: "slice0 0 11 \<lparr>shape = [10000, 100, 1, 1], elems = xs\<rparr> = Inr top"
    and s: "shape top = [11, 100, 1, 1]"
    by blast
  have r: "repeat_sizes [11, 1] top = Inl RuntimeError"
    by (simp add: repeat_sizes_def s)
  have "dcgan_lerp_z dcgan_params \<lparr>shape = [10000, 100, 1, 1], elems = xs\<rparr> = Inl RuntimeError"
    unfolding dcgan_lerp_z_def c Let_def
    by (simp only: t then_do_def sum.case r)
  then show ?thesis
    by (simp add: dcgan_interpolation_def then_do_def)
qed

text \<open>
  On a grid of two by two the block of \<^verbatim>\<open>nlzl16_generative_model.py\<close> returns the
  first two latents for the fraction 0 and the last two for the fraction 1, which here
  is the noise itself, and decodes them with the generator.  On a grid of three by
  three the middle row is the mean of the two end points and does not depend on the
  noise in between.
\<close>

lemma nlzl_lerp_z_grid: "nlzl_lerp_z grid_params grid_noise = Inr grid_noise"
  by code_simp

lemma nlzl_interpolation_grid:
  "nlzl_interpolation w grid_params grid_noise = Sequential w False (nlzl_Generator grid_params) grid_noise"
  by (simp add: nlzl_interpolation_def nlzl_lerp_z_grid then_do_def)

lemma nlzl_lerp_z_middle:
  "nlzl_lerp_z (grid_params\<lparr>batch_size := 9, nz := 1\<rparr>)
     \<lparr>shape = [9, 1, 1, 1], elems = [1, 2, 3, 40, 50, 60, 7, 8, 9]\<rparr>
   = Inr \<lparr>shape = [9, 1, 1, 1], elems = [1, 2, 3, 4, 5, 6, 7, 8, 9]\<rparr>"
  by code_simp

text \<open>
  The fractions of \<^verbatim>\<open>DCGAN.py\<close> would not fit either: 11 times 11 values cannot be
  viewed in the shape \<open>(128, 1)\<close>.
\<close>

lemma dcgan_fractions_do_not_fit:
  "then_do (unsqueeze 1 (linspace 0 1 11))
     (\<lambda>column. then_do (repeat_sizes [1, 11] column) (view [128, 1])) = Inl RuntimeError"
  by (simp add: then_do_def unsqueeze_def linspace_def repeat_sizes_def view_def Let_def)

section \<open>What the runs leave in the image directories\<close>

declare nlzl_sampling.simps [simp del]

lemma dirs_distinct:
  "real_images_dir \<noteq> generated_images_dir" "real_images_dir \<noteq> sample_dir"
  "generated_images_dir \<noteq> sample_dir"
  by (simp_all add: real_images_dir_def generated_images_dir_def sample_dir_def)

lemma setup_directory_creates:
  assumes "fs d \<noteq> Some File"
  shows "setup_directory d fs = Inr (fs(d \<mapsto> Dir Map.empty))"
proof (cases "fs d")
  case None
  then show ?thesis
    by (simp add: setup_directory_def then_do_def makedirs_def)
next
  case (Some n)
  with assms obtain files where "fs d = Some (Dir files)"
    by (cases n) auto
  then show ?thesis
    by (simp add: setup_directory_def then_do_def rmtree_def makedirs_def)
qed

lemma interval_Suc: "{n..<Suc (n + k)} = insert n {Suc n..<Suc (n + k)}"
  by auto

lemma save_images_dom:
  assumes "fs generated_images_dir = Some (Dir files)"
  shows "\<exists>files'. save_images imgs n fs = Inr (fs(generated_images_dir \<mapsto> Dir files'))
           \<and> dom files' = dom files \<union> gen_img_name ` {n..<n + length imgs}"
  using assms
proof (induction imgs arbitrary: n fs files)
  case Nil
  then show ?case
    by (auto intro!: exI [of _ files])
next
  case (Cons im imgs)
  let ?fs = "fs(generated_images_dir \<mapsto> Dir (files(gen_img_name n \<mapsto> im)))"
  have s: "save_image im generated_images_dir (gen_img_name n) fs = Inr ?fs"
    using Cons.prems by (simp add: save_image_def)
  have "?fs generated_images_dir = Some (Dir (files(gen_img_name n \<mapsto> im)))"
    by simp
  with Cons.IH [of ?fs "files(gen_img_name n \<mapsto> im)" "Suc n"]
  obtain files' where r: "save_images imgs (Suc n) ?fs = Inr (?fs(generated_images_dir \<mapsto> Dir files'))"
    and d: "dom files' = dom (files(gen_img_name n \<mapsto> im)) \<union> gen_img_name ` {Suc n..<Suc n + length imgs}"
    by blast
  have "save_images (im # imgs) n fs = Inr (fs(generated_images_dir \<mapsto> Dir files'))"
    using s r by simp
  moreover have "dom files' = dom files \<union> gen_img_name ` {n..<n + length (im # imgs)}"
    using d by (simp add: interval_Suc)
  ultimately show ?case by blast
qed

lemma save_batch_dom:
  assumes "fs generated_images_dir = Some (Dir files)"
  shows "\<exists>files'. save_batch img num k fs = Inr (fs(generated_images_dir \<mapsto> Dir files'))
           \<and> dom files' = dom files \<union> gen_img_name ` {num..<num + k}"
  using assms
proof (induction k arbitrary: num fs files)
  case 0
  then show ?case
    by (auto intro!: exI [of _ files])
next
  case (Suc k)
  let ?fs = "fs(generated_images_dir \<mapsto> Dir (files(gen_img_name num \<mapsto> img num)))"
  have s: "save_image (img num) generated_images_dir (gen_img_name num) fs = Inr ?fs"
    using Suc.prems by (simp add: save_image_def)
  have "?fs generated_images_dir = Some (Dir (files(gen_img_name num \<mapsto> img num)))"
    by simp
  with Suc.IH [of ?fs "files(gen_img_name num \<mapsto> img num)" "Suc num"]
  obtain files' where r: "save_batch img (Suc num) k ?fs = Inr (?fs(generated_images_dir \<mapsto> Dir files'))"
    and d: "dom files' = dom (files(gen_img_name num \<mapsto> img num)) \<union> gen_img_name ` {Suc num..<Suc num + k}"
    by blast
  have "save_batch img num (Suc k) fs = Inr (fs(generated_images_dir \<mapsto> Dir files'))"
    using s r by simp
  moreover have "dom files' = dom files \<union> gen_img_name ` {num..<num + Suc k}"
    using d by (simp add: interval_Suc)
  ultimately show ?case by blast
qed

lemma save_samples_frame:
  assumes "fs sample_dir = Some (Dir files)"
  shows "\<exists>files'. save_samples pictures fs = Inr (fs(sample_dir \<mapsto> Dir files'))"
  using assms
proof (induction pictures arbitrary: fs files)
  case Nil
  then show ?case
    by (auto intro!: exI [of _ files])
next
  case (Cons p pictures)
  obtain k im where p: "p = (k, im)" by (cases p)
  let ?fs = "fs(sample_dir \<mapsto> Dir (files(sample_name k \<mapsto> im)))"
  have s: "save_image im sample_dir (sample_name k) fs = Inr ?fs"
    using Cons.prems by (simp add: save_image_def)
  have "?fs sample_dir = Some (Dir (files(sample_name k \<mapsto> im)))"
    by simp
  with Cons.IH [of ?fs "files(sample_name k \<mapsto> im)"]
  obtain files' where "save_samples pictures ?fs = Inr (?fs(sample_dir \<mapsto> Dir files'))"
    by blast
  then have "save_samples (p # pictures) fs = Inr (fs(sample_dir \<mapsto> Dir files'))"
    using s p by simp
  then show ?case by blast
qed

lemma nlzl_sampling_dom:
  assumes "fs generated_images_dir = Some (Dir files)"
  shows "\<exists>files' m. nlzl_sampling img n_samples num fs = Inr (fs(generated_images_dir \<mapsto> Dir files'))
           \<and> dom files' = dom files \<union> gen_img_name ` {num..<m} \<and> num \<le> m
           \<and> (num < n_samples \<longrightarrow> n_samples \<le> m \<and> m < n_samples + 100)
           \<and> (n_samples \<le> num \<longrightarrow> m = num)"
  using assms
proof (induction img n_samples num fs arbitrary: files rule: nlzl_sampling.induct)
  case (1 img n_samples num fs)
  show ?case
  proof (cases "num < n_samples")
    case False
    then have "nlzl_sampling img n_samples num fs = Inr (fs(generated_images_dir \<mapsto> Dir files))"
      using "1.prems" by (subst nlzl_sampling.simps) (simp add: fun_upd_idem)
    moreover have "dom files = dom files \<union> gen_img_name ` {num..<num}"
      by simp
    ultimately have "nlzl_sampling img n_samples num fs = Inr (fs(generated_images_dir \<mapsto> Dir files))
           \<and> dom files = dom files \<union> gen_img_name ` {num..<num} \<and> num \<le> num
           \<and> (num < n_samples \<longrightarrow> n_samples \<le> num \<and> num < n_samples + 100)
           \<and> (n_samples \<le> num \<longrightarrow> num = num)"
      using False by simp
    then show ?thesis by blast
  next
    case True
    obtain f1 where b: "save_batch img num 100 fs = Inr (fs(generated_images_dir \<mapsto> Dir f1))"
      and d1: "dom f1 = dom files \<union> gen_img_name ` {num..<num + 100}"
      using save_batch_dom [of fs files img num 100] "1.prems" by blast
    let ?fs = "fs(generated_images_dir \<mapsto> Dir f1)"
    have "?fs generated_images_dir = Some (Dir f1)"
      by simp
    with "1.IH" [OF True b, of f1]
    obtain f2 m where r: "nlzl_sampling img n_samples (num + 100) ?fs = Inr (?fs(generated_images_dir \<mapsto> Dir f2))"
      and d2: "dom f2 = dom f1 \<union> gen_img_name ` {num + 100..<m}" and m: "num + 100 \<le> m"
      "num + 100 < n_samples \<longrightarrow> n_samples \<le> m \<and> m < n_samples + 100"
      "n_samples \<le> num + 100 \<longrightarrow> m = num + 100"
      by blast
    have run: "nlzl_sampling img n_samples num fs = Inr (fs(generated_images_dir \<mapsto> Dir f2))"
      using True b r by (subst nlzl_sampling.simps) simp
    have "{num..<m} = {num..<num + 100} \<union> {num + 100..<m}"
      using m(1) by auto
    then have dom: "dom f2 = dom files \<union> gen_img_name ` {num..<m}"
      using d1 d2 by (simp add: image_Un Un_assoc)
    have "num \<le> m" "n_samples \<le> m \<and> m < n_samples + 100"
      using m True by auto
    with run dom True
    have "nlzl_sampling img n_samples num fs = Inr (fs(generated_images_dir \<mapsto> Dir f2))
           \<and> dom f2 = dom files \<union> gen_img_name ` {num..<m} \<and> num \<le> m
           \<and> (num < n_samples \<longrightarrow> n_samples \<le> m \<and> m < n_samples + 100)
           \<and> (n_samples \<le> num \<longrightarrow> m = num)"
      by simp
    then show ?thesis by blast
  qed
qed

lemma dcgan_files_result:
  assumes "fs generated_images_dir \<noteq> Some File"
  shows "\<exists>files. dcgan_files fake fs = Inr (fs(generated_images_dir \<mapsto> Dir files))
           \<and> dom files = gen_img_name ` {..<length fake}"
proof -
  let ?fs1 = "fs(generated_images_dir \<mapsto> Dir Map.empty)"
  have a: "setup_directory generated_images_dir fs = Inr ?fs1"
    using assms by (rule setup_directory_creates)
  have "?fs1 generated_images_dir = Some (Dir Map.empty)"
    by simp
  with save_images_dom [of ?fs1 Map.empty fake 0]
  obtain files where s: "save_images fake 0 ?fs1 = Inr (?fs1(generated_images_dir \<mapsto> Dir files))"
    and d: "dom files = gen_img_name ` {0..<length fake}"
    by auto
  have "dcgan_files fake fs = Inr (fs(generated_images_dir \<mapsto> Dir files))"
    using a s by (simp add: dcgan_files_def then_do_def)
  moreover have "dom files = gen_img_name ` {..<length fake}"
    using d by (simp add: atLeast0LessThan)
  ultimately show ?thesis by blast
qed

text \<open>
  Lines 288 to 291 of \<^verbatim>\<open>DCGAN.py\<close> raise only when \<^verbatim>\<open>generated_images_dir\<close> is a plain
  file, at \<^verbatim>\<open>shutil.rmtree\<close>, before the file system has changed.
\<close>

lemma dcgan_files_raises:
  assumes "dcgan_files fake fs = Inl err"
  shows "fs generated_images_dir = Some File"
proof (rule ccontr)
  assume "fs generated_images_dir \<noteq> Some File"
  with dcgan_files_result [of fs fake] assms show False
    by auto
qed

lemma nlzl_files_result:
  assumes "fs generated_images_dir \<noteq> Some File" and "fs sample_dir \<noteq> Some File"
  shows "\<exists>fs' files m. nlzl_files pictures img n_samples fs = Inr fs'
            \<and> fs' generated_images_dir = Some (Dir files)
            \<and> dom files = gen_img_name ` {..<m} \<and> n_samples \<le> m \<and> m < n_samples + 100
            \<and> fs' real_images_dir = fs real_images_dir"
proof -
  let ?fs1 = "fs(sample_dir \<mapsto> Dir Map.empty)"
  let ?fs2 = "?fs1(generated_images_dir \<mapsto> Dir Map.empty)"
  have a: "setup_directory sample_dir fs = Inr ?fs1"
    using assms(2) by (rule setup_directory_creates)
  have "?fs1 generated_images_dir \<noteq> Some File"
    using assms(1) dirs_distinct by simp
  then have b: "setup_directory generated_images_dir ?fs1 = Inr ?fs2"
    by (rule setup_directory_creates)
  have "?fs2 sample_dir = Some (Dir Map.empty)"
    using dirs_distinct by simp
  with save_samples_frame [of ?fs2 Map.empty pictures]
  obtain sf where c: "save_samples pictures ?fs2 = Inr (?fs2(sample_dir \<mapsto> Dir sf))"
    by blast
  let ?fs3 = "?fs2(sample_dir \<mapsto> Dir sf)"
  have "?fs3 generated_images_dir = Some (Dir Map.empty)"
    using dirs_distinct by simp
  with nlzl_sampling_dom [of ?fs3 Map.empty img n_samples 0]
  obtain files m where s: "nlzl_sampling img n_samples 0 ?fs3 = Inr (?fs3(generated_images_dir \<mapsto> Dir files))"
    and d: "dom files = gen_img_name ` {0..<m}"
    and m: "0 < n_samples \<longrightarrow> n_samples \<le> m \<and> m < n_samples + 100" "n_samples \<le> 0 \<longrightarrow> m = 0"
    by auto
  let ?fs4 = "?fs3(generated_images_dir \<mapsto> Dir files)"
  have run: "nlzl_files pictures img n_samples fs = Inr ?fs4"
    using a b c s by (simp add: nlzl_files_def then_do_def)
  have r: "?fs4 real_images_dir = fs real_images_dir"
    using dirs_distinct by simp
  have g: "?fs4 generated_images_dir = Some (Dir files)"
    by simp
  have d': "dom files = gen_img_name ` {..<m}"
    using d by (simp add: atLeast0LessThan)
  have m': "n_samples \<le> m \<and> m < n_samples + 100"
    using m by (cases "0 < n_samples") auto
  show ?thesis
    using run r g d' m' by blast
qed

text \<open>
  Whatever the interpolation block and the statements after it do, \<^verbatim>\<open>DCGAN.py\<close> leaves
  \<^verbatim>\<open>real_images_dir\<close> as it was.  On the noise of line 266, of four dimensions, the
  run ends in the interpolation block, before line 288, and leaves the whole file
  system as it was.
\<close>

lemma dcgan_after_training_real_images_dir:
  "snd (dcgan_after_training w hp sample_noise fake fs) real_images_dir = fs real_images_dir"
proof (cases "dcgan_interpolation w hp sample_noise")
  case (Inl err)
  then show ?thesis
    by (simp add: dcgan_after_training_def)
next
  case (Inr lerp_g)
  show ?thesis
  proof (cases "dcgan_files fake fs")
    case (Inl err)
    with Inr show ?thesis
      by (simp add: dcgan_after_training_def)
  next
    case files: (Inr fs')
    have "fs generated_images_dir \<noteq> Some File"
    proof
      assume "fs generated_images_dir = Some File"
      then have "dcgan_files fake fs = Inl NotADirectoryError"
        by (simp add: dcgan_files_def setup_directory_def rmtree_def then_do_def)
      with files show False by simp
    qed
    with dcgan_files_result [of fs fake] files
    obtain fl where "fs' = fs(generated_images_dir \<mapsto> Dir fl)"
      by auto
    then have "fs' real_images_dir = fs real_images_dir"
      using dirs_distinct by simp
    with Inr files show ?thesis
      by (simp add: dcgan_after_training_def)
  qed
qed

lemma dcgan_after_training_raises:
  "dcgan_after_training w hp \<lparr>shape = [n, z, 1, 1], elems = xs\<rparr> fake fs = (Some RuntimeError, fs)"
proof -
  have "dcgan_interpolation w hp \<lparr>shape = [n, z, 1, 1], elems = xs\<rparr> = Inl RuntimeError"
    unfolding dcgan_interpolation_def dcgan_lerp_z_raises by (simp add: then_do_def)
  then show ?thesis
    by (simp add: dcgan_after_training_def)
qed

lemma stale_fs_dirs:
  "stale_fs generated_images_dir \<noteq> Some File" "stale_fs sample_dir \<noteq> Some File"
  "stale_fs real_images_dir = Some (Dir [''stale.png'' \<mapsto> [0]])"
  by (simp_all add: stale_fs_def real_images_dir_def generated_images_dir_def sample_dir_def)

lemma stale_is_no_sample: "''stale.png'' \<notin> gen_img_name ` A"
  by (auto simp add: gen_img_name_def)

text \<open>
  C7.  In \<^verbatim>\<open>nlzl16_generative_model.py\<close>, \<^verbatim>\<open>setup_directory\<close> is called on \<^verbatim>\<open>sample_dir\<close>
  and on \<^verbatim>\<open>generated_images_dir\<close> before training: unless one of the two names is a
  plain file, the file operations of the script succeed, and when the scorer is called
  \<^verbatim>\<open>generated_images_dir\<close> holds exactly the files \<^verbatim>\<open>gen_img_0.png\<close>,
  \<^verbatim>\<open>gen_img_1.png\<close>, ... that this run saved, whatever it held before.  Neither script
  passes \<^verbatim>\<open>real_images_dir\<close> to \<^verbatim>\<open>setup_directory\<close>: after the file operations of
  \<^verbatim>\<open>nlzl16_generative_model.py\<close>, and after \<^verbatim>\<open>DCGAN.py\<close> has run its statements after
  training in their order, however far it gets, \<^verbatim>\<open>real_images_dir\<close> is what it was
  before the run.
\<close>

theorem generated_images_dir_is_recreated_real_images_dir_is_kept:
  assumes "fs generated_images_dir \<noteq> Some File" and "fs sample_dir \<noteq> Some File"
  shows "(\<exists>fs' files m. nlzl_files pictures img n_samples fs = Inr fs'
            \<and> fs' generated_images_dir = Some (Dir files)
            \<and> dom files = gen_img_name ` {..<m} \<and> n_samples \<le> m \<and> m < n_samples + 100
            \<and> fs' real_images_dir = fs real_images_dir)
       \<and> snd (dcgan_after_training w hp sample_noise fake fs) real_images_dir = fs real_images_dir"
  using assms nlzl_files_result [of fs pictures img n_samples]
    dcgan_after_training_real_images_dir [of w hp sample_noise fake fs]
  by blast

theorem generated_images_dir_is_recreated_real_images_dir_is_kept_witness:
  "(\<exists>fs' files m. nlzl_files [(0, [1])] numbered 10000 stale_fs = Inr fs'
       \<and> fs' generated_images_dir = Some (Dir files)
       \<and> dom files = gen_img_name ` {..<m} \<and> 10000 \<le> m \<and> m < 10100
       \<and> fs' real_images_dir = Some (Dir [''stale.png'' \<mapsto> [0]]))
   \<and> snd (dcgan_after_training zero_weights dcgan_params sample_noise0 [[1], [2]] stale_fs) real_images_dir
       = Some (Dir [''stale.png'' \<mapsto> [0]])"
proof -
  note run = generated_images_dir_is_recreated_real_images_dir_is_kept [of stale_fs
      "[(0, [1])]" numbered 10000 zero_weights dcgan_params sample_noise0 "[[1], [2]]",
      OF stale_fs_dirs(1,2)]
  from run obtain fs2 files2 m where b: "nlzl_files [(0, [1])] numbered 10000 stale_fs = Inr fs2"
    "fs2 generated_images_dir = Some (Dir files2)"
    "dom files2 = gen_img_name ` {..<m}" "10000 \<le> m" "m < 10000 + 100"
    "fs2 real_images_dir = stale_fs real_images_dir"
    by blast
  have "\<exists>fs' files m. nlzl_files [(0, [1])] numbered 10000 stale_fs = Inr fs'
       \<and> fs' generated_images_dir = Some (Dir files)
       \<and> dom files = gen_img_name ` {..<m} \<and> 10000 \<le> m \<and> m < 10100
       \<and> fs' real_images_dir = Some (Dir [''stale.png'' \<mapsto> [0]])"
    using b by (simp add: stale_fs_dirs(3)) blast
  moreover have "snd (dcgan_after_training zero_weights dcgan_params sample_noise0 [[1], [2]] stale_fs)
       real_images_dir = Some (Dir [''stale.png'' \<mapsto> [0]])"
    using run by (simp add: stale_fs_dirs(3))
  ultimately show ?thesis by blast
qed

text \<open>
  As the claim has it, both directories would be recreated.  A run of
  \<^verbatim>\<open>nlzl16_generative_model.py\<close> with its 10000 samples that finds an old file in each
  directory has removed the one of \<^verbatim>\<open>generated_images_dir\<close> and still has the one of
  \<^verbatim>\<open>real_images_dir\<close> when the scorer is called; and \<^verbatim>\<open>DCGAN.py\<close>, on a noise of the
  shape of line 266, leaves the old file of \<^verbatim>\<open>real_images_dir\<close> where it was.
\<close>

theorem real_images_dir_keeps_old_files:
  "\<not> isl (nlzl_files [(0, [1])] numbered 10000 stale_fs)
   \<and> listing (projr (nlzl_files [(0, [1])] numbered 10000 stale_fs)) real_images_dir ''stale.png'' = Some [0]
   \<and> listing (projr (nlzl_files [(0, [1])] numbered 10000 stale_fs)) generated_images_dir ''stale.png'' = None
   \<and> listing (snd (dcgan_after_training zero_weights dcgan_params sample_noise0 [[1], [2]] stale_fs))
         real_images_dir ''stale.png'' = Some [0]"
proof -
  obtain fs' files m where run: "nlzl_files [(0, [1])] numbered 10000 stale_fs = Inr fs'"
    and g: "fs' generated_images_dir = Some (Dir files)"
    and d: "dom files = gen_img_name ` {..<m}"
    and r: "fs' real_images_dir = stale_fs real_images_dir"
    using nlzl_files_result [of stale_fs "[(0, [1])]" numbered 10000, OF stale_fs_dirs(1,2)] by blast
  have "''stale.png'' \<notin> dom files"
    unfolding d by (rule stale_is_no_sample)
  then have n: "files ''stale.png'' = None"
    by (simp add: domIff)
  have a: "\<not> isl (nlzl_files [(0, [1])] numbered 10000 stale_fs)"
    "projr (nlzl_files [(0, [1])] numbered 10000 stale_fs) = fs'"
    using run by simp_all
  have b: "listing fs' real_images_dir ''stale.png'' = Some [0]"
    using r by (simp add: listing_def stale_fs_dirs(3))
  have c: "listing fs' generated_images_dir ''stale.png'' = None"
    using g n by (simp add: listing_def)
  have "snd (dcgan_after_training zero_weights dcgan_params sample_noise0 [[1], [2]] stale_fs) real_images_dir
      = Some (Dir [''stale.png'' \<mapsto> [0]])"
    by (simp add: dcgan_after_training_real_images_dir stale_fs_dirs(3))
  then have e: "listing (snd (dcgan_after_training zero_weights dcgan_params sample_noise0 [[1], [2]] stale_fs))
         real_images_dir ''stale.png'' = Some [0]"
    by (simp add: listing_def)
  show ?thesis
    using a b c e by simp
qed

end
